theory Spec2Isabelle
  imports Main "HOL-Library.List_Lexorder" "HOL-Library.Char_ord"
begin

text \<open>
  A model of the Go package \<open>server\<close> (\<open>server/server.go\<close>), the client of a secret
  server: \<open>New\<close> builds a server from a configuration, \<open>urlFor\<close> gives the URL of a
  resource, \<open>getAccessToken\<close> returns the static token or exchanges the credentials for
  one, \<open>accessResource\<close> sends an authenticated request and \<open>uploadFile\<close> a multipart
  form.

  A function that can fail returns a sum, the error on the left. A function that sends
  requests takes the list of the requests sent so far and returns it extended; what the
  network answers is a parameter. Calls to the logger are left out: they write to the
  log and change neither a result nor a request. Go's \<open>int\<close> is taken as unbounded
  where the program only prints it (the secret id), and as 64 bits wide where the JSON
  decoder checks its range.
\<close>

section \<open>Strings\<close>

text \<open>
  A Go string is a sequence of bytes, modelled as \<^typ>\<open>string\<close>.
  \<^verbatim>\<open>strings.Trim(s, cutset)\<close> removes from both ends of \<open>s\<close> every character of the
  cutset; every cutset of the program is the single ASCII character \<open>/\<close>, for which Go
  trims bytes: first on the left, then on the right.
\<close>

definition trimLeft :: "string \<Rightarrow> string \<Rightarrow> string" where
  "trimLeft s cutset = dropWhile (\<lambda>c. c \<in> set cutset) s"

definition trimRight :: "string \<Rightarrow> string \<Rightarrow> string" where
  "trimRight s cutset = rev (dropWhile (\<lambda>c. c \<in> set cutset) (rev s))"

definition strings_Trim :: "string \<Rightarrow> string \<Rightarrow> string" where
  "strings_Trim s cutset = trimRight (trimLeft s cutset) cutset"

text \<open>The number of places of a string where a slash is followed by a slash.\<close>

fun double_slashes :: "string \<Rightarrow> nat" where
  "double_slashes (a # b # cs) =
     (if a = CHR ''/'' \<and> b = CHR ''/'' then 1 else 0) + double_slashes (b # cs)"
| "double_slashes cs = 0"

section \<open>Configuration and construction\<close>

definition defaultAPIPathURI :: string where
  "defaultAPIPathURI = ''/api/v1''"

definition defaultTokenPathURI :: string where
  "defaultTokenPathURI = ''/oauth2/token''"

definition defaultTLD :: string where
  "defaultTLD = ''com''"

text \<open>\<^verbatim>\<open>fmt.Sprintf(cloudBaseURLTemplate, tenant, tld)\<close> with the template
  \<^verbatim>\<open>"https://%s.secretservercloud.%s/"\<close>.\<close>

definition cloudBaseURL :: "string \<Rightarrow> string \<Rightarrow> string" where
  "cloudBaseURL tenant tld = ''https://'' @ tenant @ ''.secretservercloud.'' @ tld @ ''/''"

record UserCredential =
  AccessToken :: string
  Domain' :: string
  Username :: string
  Password :: string

text \<open>The TLS settings are opaque to the program: it only stores them.\<close>

typedecl tls_Config

record Configuration =
  Credentials :: UserCredential
  ServerURL :: string
  TLD :: string
  Tenant :: string
  apiPathURI :: string
  tokenPathURI :: string
  TLSClientConfig :: "tls_Config option"
  LogLevel :: int

type_synonym Server = Configuration

definition LevelTrace :: int where "LevelTrace = - 2"
definition LevelDebug :: int where "LevelDebug = - 1"
definition LevelInfo :: int where "LevelInfo = 0"
definition LevelWarn :: int where "LevelWarn = 1"
definition LevelError :: int where "LevelError = 2"

datatype zerolog_Level = TraceLevel | DebugLevel | InfoLevel | WarnLevel | ErrorLevel

text \<open>The two process-wide settings that \<open>New\<close> writes: the TLS configuration of the
  default HTTP transport and the global log level.\<close>

record globals =
  DefaultTransport_TLSClientConfig :: "tls_Config option"
  zerolog_GlobalLevel :: zerolog_Level

text \<open>
  Go errors. \<open>Errorf\<close> is an error made by \<^verbatim>\<open>fmt.Errorf\<close> with its message;
  \<open>SyntaxError\<close> and \<open>UnmarshalTypeError\<close> are the two errors of
  \<^verbatim>\<open>json.Unmarshal\<close>; \<open>LibraryError\<close> stands for an error that a library call outside
  this program reports (JSON encoding, request construction, the transport, the
  response handler).
\<close>

datatype error =
  Errorf string
| SyntaxError
| UnmarshalTypeError string string
| LibraryError string

definition set_log_level :: "int \<Rightarrow> zerolog_Level" where
  "set_log_level l =
     (if l = LevelTrace then TraceLevel
      else if l = LevelDebug then DebugLevel
      else if l = LevelWarn then WarnLevel
      else if l = LevelError then ErrorLevel
      else InfoLevel)"

definition New :: "Configuration \<Rightarrow> globals \<Rightarrow> (error + Server) \<times> globals" where
  "New config g =
     (if ServerURL config = [] \<and> Tenant config = [] \<or> ServerURL config \<noteq> [] \<and> Tenant config \<noteq> []
      then (Inl (Errorf ''either ServerURL or Tenant must be set''), g)
      else
        let c1 = (if TLD config = [] then config\<lparr>TLD := defaultTLD\<rparr> else config);
            g1 = (case TLSClientConfig c1 of
                    Some t \<Rightarrow> g\<lparr>DefaultTransport_TLSClientConfig := Some t\<rparr>
                  | None \<Rightarrow> g);
            c2 = (if apiPathURI c1 = [] then c1\<lparr>apiPathURI := defaultAPIPathURI\<rparr> else c1);
            c3 = c2\<lparr>apiPathURI := strings_Trim (apiPathURI c2) ''/''\<rparr>;
            c4 = (if tokenPathURI c3 = [] then c3\<lparr>tokenPathURI := defaultTokenPathURI\<rparr> else c3);
            c5 = c4\<lparr>tokenPathURI := strings_Trim (tokenPathURI c4) ''/''\<rparr>;
            g2 = g1\<lparr>zerolog_GlobalLevel := set_log_level (LogLevel c5)\<rparr>
        in (Inr c5, g2))"

section \<open>URL resolution\<close>

definition urlFor :: "Server \<Rightarrow> string \<Rightarrow> string \<Rightarrow> string" where
  "urlFor s resource path =
     (let baseURL = (if ServerURL s = [] then cloudBaseURL (Tenant s) (TLD s) else ServerURL s)
      in if resource = ''token''
         then strings_Trim baseURL ''/'' @ ''/'' @ strings_Trim (tokenPathURI s) ''/''
         else strings_Trim baseURL ''/'' @ ''/'' @ strings_Trim (apiPathURI s) ''/'' @ ''/'' @
              strings_Trim resource ''/'' @ ''/'' @ strings_Trim path ''/'')"

section \<open>Form encoding\<close>

text \<open>
  \<^verbatim>\<open>url.QueryEscape\<close>: letters, digits and \<open>- _ . ~\<close> stay, a space becomes \<open>+\<close>, every
  other byte becomes \<open>%XX\<close> with upper-case hexadecimal digits.
\<close>

definition is_digit :: "char \<Rightarrow> bool" where
  "is_digit c = (CHR ''0'' \<le> c \<and> c \<le> CHR ''9'')"

definition is_lower :: "char \<Rightarrow> bool" where
  "is_lower c = (CHR ''a'' \<le> c \<and> c \<le> CHR ''z'')"

definition is_upper :: "char \<Rightarrow> bool" where
  "is_upper c = (CHR ''A'' \<le> c \<and> c \<le> CHR ''Z'')"

definition is_alpha :: "char \<Rightarrow> bool" where
  "is_alpha c = (is_lower c \<or> is_upper c)"

definition shouldEscape :: "char \<Rightarrow> bool" where
  "shouldEscape c = (\<not> (is_alpha c \<or> is_digit c \<or> c \<in> set ''-_.~''))"

definition upperhex :: "nat \<Rightarrow> char" where
  "upperhex n = ''0123456789ABCDEF'' ! n"

definition QueryEscape :: "string \<Rightarrow> string" where
  "QueryEscape s =
     concat (map (\<lambda>c. if c = CHR '' '' then ''+''
                        else if shouldEscape c
                        then [CHR ''%'', upperhex (of_char c div 16), upperhex (of_char c mod 16)]
                        else [c]) s)"

text \<open>
  \<^verbatim>\<open>url.Values\<close> is a map from a key to a list of values, here a list of pairs with one
  pair per key. \<open>Encode\<close> writes \<open>key=value\<close> for every value, the keys in sorted order,
  with \<open>&\<close> in front of every pair but the first.
\<close>

type_synonym url_Values = "(string \<times> string list) list"

definition Values_set :: "url_Values \<Rightarrow> string \<Rightarrow> string list \<Rightarrow> url_Values" where
  "Values_set v k vs = (k, vs) # filter (\<lambda>p. fst p \<noteq> k) v"

definition Values_get :: "url_Values \<Rightarrow> string \<Rightarrow> string list" where
  "Values_get v k = (case map_of v k of Some vs \<Rightarrow> vs | None \<Rightarrow> [])"

definition write_pair :: "string \<Rightarrow> string \<Rightarrow> string \<Rightarrow> string" where
  "write_pair keyEscaped buf val =
     (if buf \<noteq> [] then buf @ ''&'' else buf) @ keyEscaped @ ''='' @ QueryEscape val"

definition Encode :: "url_Values \<Rightarrow> string" where
  "Encode v =
     foldl (\<lambda>buf k. foldl (write_pair (QueryEscape k)) buf (Values_get v k)) []
       (sort (map fst v))"

section \<open>JSON decoding\<close>

text \<open>
  \<^verbatim>\<open>json.Unmarshal(data, &grant)\<close> first checks that \<open>data\<close> is one JSON value and then
  stores the value into the struct. The check is modelled by a tokenizer and a parser
  with an explicit stack, as the library's scanner is; a number keeps its literal text,
  a string is unquoted.
\<close>

datatype json =
  JNull
| JBool bool
| JNumber string
| JString string
| JArray "json list"
| JObject "(string \<times> json) list"

datatype token =
  TNull | TTrue | TFalse
| TNumber string
| TString string
| TBeginArray | TEndArray | TBeginObject | TEndObject | TComma | TColon

definition quote :: char where
  "quote = CHR 0x22"

definition backslash :: char where
  "backslash = CHR 0x5C"

definition is_space :: "char \<Rightarrow> bool" where
  "is_space c = (c = CHR '' '' \<or> c = CHR 0x09 \<or> c = CHR 0x0D \<or> c = CHR 0x0A)"

definition is_hex :: "char \<Rightarrow> bool" where
  "is_hex c = (is_digit c \<or> CHR ''a'' \<le> c \<and> c \<le> CHR ''f'' \<or> CHR ''A'' \<le> c \<and> c \<le> CHR ''F'')"

definition hex_val :: "char \<Rightarrow> nat" where
  "hex_val c =
     (if is_digit c then of_char c - 48
      else if CHR ''a'' \<le> c \<and> c \<le> CHR ''f'' then of_char c - 87
      else of_char c - 55)"

text \<open>The length of a string literal after its opening quote, the closing quote
  included; none when the literal is not closed, holds a control character or a
  wrong escape.\<close>

fun string_end :: "string \<Rightarrow> nat option" where
  "string_end [] = None"
| "string_end (c # cs) =
     (if c = quote then Some 1
      else if c = backslash then
        (case cs of
           [] \<Rightarrow> None
         | e # es \<Rightarrow>
             if e \<in> set [quote, backslash, CHR ''/'', CHR ''b'', CHR ''f'', CHR ''n'', CHR ''r'', CHR ''t'']
             then map_option (\<lambda>n. n + 2) (string_end es)
             else if e = CHR ''u'' \<and> 4 \<le> length es \<and> list_all is_hex (take 4 es)
             then map_option (\<lambda>n. n + 6) (string_end (drop 4 es))
             else None)
      else if (of_char c :: nat) < 32 then None
      else map_option Suc (string_end cs))"

text \<open>\<^verbatim>\<open>utf8.EncodeRune\<close> and the size of the well-formed UTF-8 sequence at the head of
  a string (0 when there is none, where \<^verbatim>\<open>utf8.DecodeRune\<close> gives the replacement
  character and the width 1).\<close>

definition replacement :: string where
  "replacement = [CHR 0xEF, CHR 0xBF, CHR 0xBD]"

definition EncodeRune :: "nat \<Rightarrow> string" where
  "EncodeRune r =
     (if r < 128 then [char_of r]
      else if r < 2048 then [char_of (192 + r div 64), char_of (128 + r mod 64)]
      else if 55296 \<le> r \<and> r < 57344 then replacement
      else if r < 65536 then
        [char_of (224 + r div 4096), char_of (128 + r div 64 mod 64), char_of (128 + r mod 64)]
      else if r < 1114112 then
        [char_of (240 + r div 262144), char_of (128 + r div 4096 mod 64),
         char_of (128 + r div 64 mod 64), char_of (128 + r mod 64)]
      else replacement)"

definition is_cont :: "nat \<Rightarrow> nat \<Rightarrow> char \<Rightarrow> bool" where
  "is_cont lo hi c = (lo \<le> (of_char c :: nat) \<and> (of_char c :: nat) \<le> hi)"

definition rune_size :: "string \<Rightarrow> nat" where
  "rune_size s =
     (case s of
        [] \<Rightarrow> 0
      | c # cs \<Rightarrow>
          let b = (of_char c :: nat) in
          if b < 128 then 1
          else if b < 194 then 0
          else if b < 224 then
            (if 1 \<le> length cs \<and> is_cont 128 191 (cs ! 0) then 2 else 0)
          else if b < 240 then
            (if 2 \<le> length cs
                \<and> is_cont (if b = 224 then 160 else 128) (if b = 237 then 159 else 191) (cs ! 0)
                \<and> is_cont 128 191 (cs ! 1) then 3 else 0)
          else if b < 245 then
            (if 3 \<le> length cs
                \<and> is_cont (if b = 240 then 144 else 128) (if b = 244 then 143 else 191) (cs ! 0)
                \<and> is_cont 128 191 (cs ! 1) \<and> is_cont 128 191 (cs ! 2) then 4 else 0)
          else 0)"

definition hex4 :: "string \<Rightarrow> nat" where
  "hex4 s = foldl (\<lambda>a c. 16 * a + hex_val c) 0 (take 4 s)"

text \<open>\<^verbatim>\<open>getu4\<close>: the code unit of \<open>\uXXXX\<close> at the head of a string, if there is one.\<close>

definition getu4 :: "string \<Rightarrow> nat option" where
  "getu4 s =
     (if 6 \<le> length s \<and> s ! 0 = backslash \<and> s ! 1 = CHR ''u'' \<and> list_all is_hex (take 4 (drop 2 s))
      then Some (hex4 (drop 2 s)) else None)"

definition unescape :: "char \<Rightarrow> char" where
  "unescape e =
     (if e = CHR ''b'' then CHR 0x08
      else if e = CHR ''f'' then CHR 0x0C
      else if e = CHR ''n'' then CHR 0x0A
      else if e = CHR ''r'' then CHR 0x0D
      else if e = CHR ''t'' then CHR 0x09
      else e)"

text \<open>\<^verbatim>\<open>unquote\<close>, on the text between the quotes: escapes are replaced, a surrogate
  pair of two \<open>\u\<close> escapes becomes one character, a lone surrogate and every byte that
  is not well-formed UTF-8 become the replacement character.\<close>

fun unquote :: "string \<Rightarrow> string" where
  "unquote [] = []"
| "unquote (c # cs) =
     (if c = backslash then
        (case cs of
           [] \<Rightarrow> []
         | e # es \<Rightarrow>
             if e = CHR ''u'' then
               (let rr = hex4 es in
                if 55296 \<le> rr \<and> rr < 57344 then
                  (case getu4 (drop 4 es) of
                     Some rr1 \<Rightarrow>
                       if rr < 56320 \<and> 56320 \<le> rr1 \<and> rr1 < 57344
                       then EncodeRune ((rr - 55296) * 1024 + (rr1 - 56320) + 65536)
                              @ unquote (drop 10 es)
                       else replacement @ unquote (drop 4 es)
                   | None \<Rightarrow> replacement @ unquote (drop 4 es))
                else EncodeRune rr @ unquote (drop 4 es))
             else unescape e # unquote es)
      else if rune_size (c # cs) = 0 then replacement @ unquote cs
      else take (rune_size (c # cs)) (c # cs) @ unquote (drop (rune_size (c # cs) - 1) cs))"

text \<open>The length of the number literal at the head of a string.\<close>

definition digits_len :: "string \<Rightarrow> nat" where
  "digits_len cs = length (takeWhile is_digit cs)"

definition lex_int :: "string \<Rightarrow> nat option" where
  "lex_int cs =
     (case cs of
        [] \<Rightarrow> None
      | d # r \<Rightarrow>
          if d = CHR ''0'' then Some 1
          else if is_digit d then Some (1 + digits_len r)
          else None)"

definition lex_frac :: "string \<Rightarrow> nat option" where
  "lex_frac cs =
     (case cs of
        [] \<Rightarrow> Some 0
      | d # r \<Rightarrow>
          if d = CHR ''.'' then (if digits_len r = 0 then None else Some (1 + digits_len r))
          else Some 0)"

definition lex_exp :: "string \<Rightarrow> nat option" where
  "lex_exp cs =
     (case cs of
        [] \<Rightarrow> Some 0
      | e # r \<Rightarrow>
          if e = CHR ''e'' \<or> e = CHR ''E'' then
            (let sgn = (if r \<noteq> [] \<and> (hd r = CHR ''+'' \<or> hd r = CHR ''-'') then 1 else 0);
                 k = digits_len (drop sgn r)
             in if k = 0 then None else Some (1 + sgn + k))
          else Some 0)"

definition lex_number :: "string \<Rightarrow> nat option" where
  "lex_number cs =
     (let s = (if cs \<noteq> [] \<and> hd cs = CHR ''-'' then 1 else 0) in
      case lex_int (drop s cs) of
        None \<Rightarrow> None
      | Some i \<Rightarrow>
          (case lex_frac (drop (s + i) cs) of
             None \<Rightarrow> None
           | Some f \<Rightarrow>
               (case lex_exp (drop (s + i + f) cs) of
                  None \<Rightarrow> None
                | Some e \<Rightarrow> Some (s + i + f + e))))"

fun tokenize :: "string \<Rightarrow> token list option" where
  "tokenize [] = Some []"
| "tokenize (c # cs) =
     (if is_space c then tokenize cs
      else if c = CHR ''['' then map_option ((#) TBeginArray) (tokenize cs)
      else if c = CHR '']'' then map_option ((#) TEndArray) (tokenize cs)
      else if c = CHR ''{'' then map_option ((#) TBeginObject) (tokenize cs)
      else if c = CHR ''}'' then map_option ((#) TEndObject) (tokenize cs)
      else if c = CHR '','' then map_option ((#) TComma) (tokenize cs)
      else if c = CHR '':'' then map_option ((#) TColon) (tokenize cs)
      else if c = quote then
        (case string_end cs of
           None \<Rightarrow> None
         | Some n \<Rightarrow>
             map_option ((#) (TString (unquote (take (n - 1) cs)))) (tokenize (drop n cs)))
      else if c = CHR ''-'' \<or> is_digit c then
        (case lex_number (c # cs) of
           None \<Rightarrow> None
         | Some n \<Rightarrow>
             map_option ((#) (TNumber (take n (c # cs)))) (tokenize (drop (n - 1) cs)))
      else if take 4 (c # cs) = ''null'' then map_option ((#) TNull) (tokenize (drop 3 cs))
      else if take 4 (c # cs) = ''true'' then map_option ((#) TTrue) (tokenize (drop 3 cs))
      else if take 5 (c # cs) = ''false'' then map_option ((#) TFalse) (tokenize (drop 4 cs))
      else None)"

text \<open>
  The parser reads the tokens with a stack of the arrays and objects that are open.
  \<open>maxDepth\<close> is the library's limit on their number (none in Go 1.13, which the
  repository builds with; 10000 since Go 1.15).
\<close>

datatype frame =
  ArrayFrame "json list"
| ObjectFrame "(string \<times> json) list" string

datatype mode =
  WantValue | WantValueOrEnd | WantKey | WantKeyOrEnd | WantColon | WantCommaOrEnd
| Finished json

definition deliver :: "json \<Rightarrow> frame list \<Rightarrow> (mode \<times> frame list) option" where
  "deliver v st =
     (case st of
        [] \<Rightarrow> Some (Finished v, [])
      | ArrayFrame xs # st' \<Rightarrow> Some (WantCommaOrEnd, ArrayFrame (v # xs) # st')
      | ObjectFrame kvs k # st' \<Rightarrow> Some (WantCommaOrEnd, ObjectFrame ((k, v) # kvs) k # st'))"

definition may_push :: "nat option \<Rightarrow> frame list \<Rightarrow> bool" where
  "may_push maxDepth st = (case maxDepth of None \<Rightarrow> True | Some m \<Rightarrow> length st < m)"

definition begin_value :: "nat option \<Rightarrow> token \<Rightarrow> frame list \<Rightarrow> (mode \<times> frame list) option" where
  "begin_value maxDepth t st =
     (case t of
        TNull \<Rightarrow> deliver JNull st
      | TTrue \<Rightarrow> deliver (JBool True) st
      | TFalse \<Rightarrow> deliver (JBool False) st
      | TNumber n \<Rightarrow> deliver (JNumber n) st
      | TString s \<Rightarrow> deliver (JString s) st
      | TBeginArray \<Rightarrow>
          if may_push maxDepth st then Some (WantValueOrEnd, ArrayFrame [] # st) else None
      | TBeginObject \<Rightarrow>
          if may_push maxDepth st then Some (WantKeyOrEnd, ObjectFrame [] [] # st) else None
      | _ \<Rightarrow> None)"

definition begin_key :: "token \<Rightarrow> frame list \<Rightarrow> (mode \<times> frame list) option" where
  "begin_key t st =
     (case (t, st) of
        (TString k, ObjectFrame kvs _ # st') \<Rightarrow> Some (WantColon, ObjectFrame kvs k # st')
      | _ \<Rightarrow> None)"

definition end_container :: "token \<Rightarrow> frame list \<Rightarrow> (mode \<times> frame list) option" where
  "end_container t st =
     (case (t, st) of
        (TEndArray, ArrayFrame xs # st') \<Rightarrow> deliver (JArray (rev xs)) st'
      | (TEndObject, ObjectFrame kvs _ # st') \<Rightarrow> deliver (JObject (rev kvs)) st'
      | _ \<Rightarrow> None)"

definition step :: "nat option \<Rightarrow> mode \<Rightarrow> frame list \<Rightarrow> token \<Rightarrow> (mode \<times> frame list) option" where
  "step maxDepth m st t =
     (case m of
        WantValue \<Rightarrow> begin_value maxDepth t st
      | WantValueOrEnd \<Rightarrow> if t = TEndArray then end_container t st else begin_value maxDepth t st
      | WantKey \<Rightarrow> begin_key t st
      | WantKeyOrEnd \<Rightarrow> if t = TEndObject then end_container t st else begin_key t st
      | WantColon \<Rightarrow> if t = TColon then Some (WantValue, st) else None
      | WantCommaOrEnd \<Rightarrow>
          if t = TComma
          then (case st of
                  ArrayFrame _ # _ \<Rightarrow> Some (WantValue, st)
                | ObjectFrame _ _ # _ \<Rightarrow> Some (WantKey, st)
                | [] \<Rightarrow> None)
          else end_container t st
      | Finished _ \<Rightarrow> None)"

fun parse_tokens :: "nat option \<Rightarrow> mode \<Rightarrow> frame list \<Rightarrow> token list \<Rightarrow> json option" where
  "parse_tokens maxDepth m st [] = (case m of Finished v \<Rightarrow> Some v | _ \<Rightarrow> None)"
| "parse_tokens maxDepth m st (t # ts) =
     (case step maxDepth m st t of
        None \<Rightarrow> None
      | Some (m', st') \<Rightarrow> parse_tokens maxDepth m' st' ts)"

definition parse_json :: "nat option \<Rightarrow> string \<Rightarrow> json option" where
  "parse_json maxDepth data =
     (case tokenize data of
        None \<Rightarrow> None
      | Some ts \<Rightarrow> parse_tokens maxDepth WantValue [] ts)"

text \<open>
  The grant of \<open>getAccessToken\<close>: an anonymous struct with the JSON names
  \<open>access_token\<close>, \<open>refresh_token\<close>, \<open>token_type\<close> and \<open>expires_in\<close>.
\<close>

record grant =
  grant_AccessToken :: string
  grant_RefreshToken :: string
  grant_TokenType :: string
  grant_ExpiresIn :: int

definition zero_grant :: grant where
  "zero_grant = \<lparr>grant_AccessToken = [], grant_RefreshToken = [], grant_TokenType = [],
                  grant_ExpiresIn = 0\<rparr>"

definition grant_fields :: "string list" where
  "grant_fields = [''access_token'', ''refresh_token'', ''token_type'', ''expires_in'']"

text \<open>
  The library matches an object key with a field name exactly or, failing that, without
  regard to case. Every name above holds a \<open>k\<close> or an \<open>s\<close>, for which the library
  compares with \<^verbatim>\<open>equalFoldRight\<close>: an ASCII letter matches itself in either case, and
  \<open>k\<close> and \<open>s\<close> also match the Kelvin sign (U+212A) and the long s (U+017F).
\<close>

definition to_upper :: "char \<Rightarrow> char" where
  "to_upper c = (if is_lower c then char_of (of_char c - (32 :: nat)) else c)"

fun equalFoldRight :: "string \<Rightarrow> string \<Rightarrow> bool" where
  "equalFoldRight [] t = (t = [])"
| "equalFoldRight (sb # s) [] = False"
| "equalFoldRight (sb # s) (tb # t) =
     (if (of_char tb :: nat) < 128 then
        (sb = tb \<or> is_upper (to_upper sb) \<and> to_upper sb = to_upper tb) \<and> equalFoldRight s t
      else if sb = CHR ''s'' \<or> sb = CHR ''S'' then
        take 2 (tb # t) = [CHR 0xC5, CHR 0xBF] \<and> equalFoldRight s (drop 1 t)
      else if sb = CHR ''k'' \<or> sb = CHR ''K'' then
        take 3 (tb # t) = [CHR 0xE2, CHR 0x84, CHR 0xAA] \<and> equalFoldRight s (drop 2 t)
      else False)"

fun find_field :: "string list \<Rightarrow> string \<Rightarrow> string option \<Rightarrow> string option" where
  "find_field [] key f = f"
| "find_field (ff # fs) key f =
     (if ff = key then Some ff
      else find_field fs key (if f = None \<and> equalFoldRight ff key then Some ff else f))"

definition value_kind :: "json \<Rightarrow> string" where
  "value_kind v =
     (case v of
        JNull \<Rightarrow> ''null''
      | JBool _ \<Rightarrow> ''bool''
      | JNumber _ \<Rightarrow> ''number''
      | JString _ \<Rightarrow> ''string''
      | JArray _ \<Rightarrow> ''array''
      | JObject _ \<Rightarrow> ''object'')"

text \<open>\<^verbatim>\<open>strconv.ParseInt(s, 10, 64)\<close> on a number literal.\<close>

definition ParseInt :: "string \<Rightarrow> int option" where
  "ParseInt s =
     (let neg = (s \<noteq> [] \<and> hd s = CHR ''-'');
          ds = (if neg then tl s else s);
          n = foldl (\<lambda>a c. 10 * a + (of_char c - 48)) (0 :: int) ds;
          v = (if neg then - n else n)
      in if ds \<noteq> [] \<and> list_all is_digit ds \<and> - (2 ^ 63) \<le> v \<and> v < 2 ^ 63
         then Some v else None)"

text \<open>Storing one member of the object: a value of the wrong JSON type leaves the
  field as it is and the first such error is kept; \<open>null\<close> leaves the field as it
  is; a key that matches no field is skipped.\<close>

definition store_string ::
  "string \<Rightarrow> (string \<Rightarrow> grant \<Rightarrow> grant) \<Rightarrow> json \<Rightarrow> grant \<times> error option \<Rightarrow> grant \<times> error option" where
  "store_string name upd v st =
     (case v of
        JString s \<Rightarrow> (upd s (fst st), snd st)
      | JNull \<Rightarrow> st
      | _ \<Rightarrow> (fst st, if snd st = None then Some (UnmarshalTypeError (value_kind v) name) else snd st))"

definition store_int ::
  "string \<Rightarrow> (int \<Rightarrow> grant \<Rightarrow> grant) \<Rightarrow> json \<Rightarrow> grant \<times> error option \<Rightarrow> grant \<times> error option" where
  "store_int name upd v st =
     (case v of
        JNumber n \<Rightarrow>
          (case ParseInt n of
             Some i \<Rightarrow> (upd i (fst st), snd st)
           | None \<Rightarrow>
               (fst st, if snd st = None then Some (UnmarshalTypeError (''number '' @ n) name)
                        else snd st))
      | JNull \<Rightarrow> st
      | _ \<Rightarrow> (fst st, if snd st = None then Some (UnmarshalTypeError (value_kind v) name) else snd st))"

definition store_member :: "grant \<times> error option \<Rightarrow> string \<times> json \<Rightarrow> grant \<times> error option" where
  "store_member st kv =
     (case find_field grant_fields (fst kv) None of
        None \<Rightarrow> st
      | Some name \<Rightarrow>
          if name = ''access_token''
          then store_string name (\<lambda>s g. g\<lparr>grant_AccessToken := s\<rparr>) (snd kv) st
          else if name = ''refresh_token''
          then store_string name (\<lambda>s g. g\<lparr>grant_RefreshToken := s\<rparr>) (snd kv) st
          else if name = ''token_type''
          then store_string name (\<lambda>s g. g\<lparr>grant_TokenType := s\<rparr>) (snd kv) st
          else store_int name (\<lambda>i g. g\<lparr>grant_ExpiresIn := i\<rparr>) (snd kv) st)"

definition decode_grant :: "json \<Rightarrow> grant \<times> error option" where
  "decode_grant v =
     (case v of
        JObject members \<Rightarrow> foldl store_member (zero_grant, None) members
      | JNull \<Rightarrow> (zero_grant, None)
      | _ \<Rightarrow> (zero_grant, Some (UnmarshalTypeError (value_kind v) [])))"

definition json_Unmarshal :: "nat option \<Rightarrow> string \<Rightarrow> error + grant" where
  "json_Unmarshal maxDepth data =
     (case parse_json maxDepth data of
        None \<Rightarrow> Inl SyntaxError
      | Some v \<Rightarrow>
          (case snd (decode_grant v) of
             Some e \<Rightarrow> Inl e
           | None \<Rightarrow> Inr (fst (decode_grant v))))"

section \<open>HTTP requests and the environment\<close>

text \<open>
  A multipart writer is modelled by what has been written through it: the boundary, the
  parts with their headers and data, and whether the closing boundary was written. The
  program writes into a buffer in memory, so none of its writes fails.
\<close>

record form_part =
  part_name :: string
  part_filename :: string
  part_content_type :: string
  part_data :: string

record multipart_Writer =
  w_boundary :: string
  w_parts :: "form_part list"
  w_closed :: bool

definition multipart_NewWriter :: "string \<Rightarrow> multipart_Writer" where
  "multipart_NewWriter b = \<lparr>w_boundary = b, w_parts = [], w_closed = False\<rparr>"

definition CreateFormFile :: "multipart_Writer \<Rightarrow> string \<Rightarrow> string \<Rightarrow> multipart_Writer" where
  "CreateFormFile w fieldname filename =
     w\<lparr>w_parts := w_parts w @
          [\<lparr>part_name = fieldname, part_filename = filename,
            part_content_type = ''application/octet-stream'', part_data = []\<rparr>]\<rparr>"

text \<open>\<^verbatim>\<open>io.Copy\<close> into the part that \<open>CreateFormFile\<close> returned, the last one.\<close>

definition io_Copy :: "multipart_Writer \<Rightarrow> string \<Rightarrow> multipart_Writer" where
  "io_Copy w src =
     (case rev (w_parts w) of
        [] \<Rightarrow> w
      | p # ps \<Rightarrow> w\<lparr>w_parts := rev ps @ [p\<lparr>part_data := part_data p @ src\<rparr>]\<rparr>)"

definition Close :: "multipart_Writer \<Rightarrow> multipart_Writer" where
  "Close w = w\<lparr>w_closed := True\<rparr>"

definition FormDataContentType :: "multipart_Writer \<Rightarrow> string" where
  "FormDataContentType w =
     ''multipart/form-data; boundary='' @
     (if \<exists>c \<in> set (w_boundary w). c \<in> set (''()<>@,;:'' @ [backslash, quote] @ ''/[]?= '')
      then [quote] @ w_boundary w @ [quote] else w_boundary w)"

datatype http_body = Bytes string | Form multipart_Writer

text \<open>A request header maps a name to its values. The two names the program uses,
  \<open>Authorization\<close> and \<open>Content-Type\<close>, are in canonical form already.\<close>

type_synonym http_Header = "(string \<times> string list) list"

definition Header_Add :: "http_Header \<Rightarrow> string \<Rightarrow> string \<Rightarrow> http_Header" where
  "Header_Add h k v =
     (case map_of h k of
        None \<Rightarrow> h @ [(k, [v])]
      | Some vs \<Rightarrow> map (\<lambda>p. if fst p = k then (k, snd p @ [v]) else p) h)"

definition Header_Set :: "http_Header \<Rightarrow> string \<Rightarrow> string \<Rightarrow> http_Header" where
  "Header_Set h k v = filter (\<lambda>p. fst p \<noteq> k) h @ [(k, [v])]"

record http_Request =
  Method :: string
  URL :: string
  Header :: http_Header
  Body :: http_body

record http_Response =
  StatusCode :: int
  ResponseBody :: string

text \<open>
  What the program calls and this repository's sources do not hold:
  \<^item> \<open>json_Marshal\<close>: \<^verbatim>\<open>json.Marshal\<close> on a payload, of any type \<open>'a\<close>;
  \<^item> \<open>request_url\<close>: what \<^verbatim>\<open>http.NewRequest\<close> makes of the method and the URL it is
    given: an error when it refuses the method or cannot parse the URL, else the URL of
    the request as it is sent, which is the parsed URL written out again (a space of
    the path, for one, is sent as \<open>%20\<close>);
  \<^item> \<open>RoundTrip\<close>: the exchange of one request over the network, which may depend on
    the requests sent before;
  \<^item> \<open>handleResponse\<close>: the package's response handler, which turns a response or a
    transport error into the body or an error;
  \<^item> \<open>randomBoundary\<close>: the boundary a new multipart writer draws at random;
  \<^item> \<open>maxNestingDepth\<close>: the nesting limit of the JSON scanner.

  The state of the world is the list of the requests sent so far.
\<close>

record 'a env =
  json_Marshal :: "'a \<Rightarrow> error + string"
  request_url :: "string \<Rightarrow> string \<Rightarrow> error + string"
  RoundTrip :: "http_Request list \<Rightarrow> http_Request \<Rightarrow> error + http_Response"
  handleResponse :: "error + http_Response \<Rightarrow> error + string"
  randomBoundary :: string
  maxNestingDepth :: "nat option"

definition http_NewRequest ::
  "'a env \<Rightarrow> string \<Rightarrow> string \<Rightarrow> http_body \<Rightarrow> error + http_Request" where
  "http_NewRequest env method url body =
     (case request_url env method url of
        Inl err \<Rightarrow> Inl err
      | Inr u \<Rightarrow>
          Inr \<lparr>Method = (if method = [] then ''GET'' else method), URL = u, Header = [],
               Body = body\<rparr>)"

definition client_Do ::
  "'a env \<Rightarrow> http_Request list \<Rightarrow> http_Request \<Rightarrow> (error + http_Response) \<times> http_Request list" where
  "client_Do env sent req = (RoundTrip env sent req, sent @ [req])"

definition http_Post ::
  "'a env \<Rightarrow> http_Request list \<Rightarrow> string \<Rightarrow> string \<Rightarrow> http_body \<Rightarrow>
   (error + http_Response) \<times> http_Request list" where
  "http_Post env sent url contentType body =
     (case http_NewRequest env ''POST'' url body of
        Inl err \<Rightarrow> (Inl err, sent)
      | Inr req \<Rightarrow> client_Do env sent (req\<lparr>Header := Header_Set (Header req) ''Content-Type'' contentType\<rparr>))"

section \<open>Token acquisition\<close>

definition token_values :: "UserCredential \<Rightarrow> url_Values" where
  "token_values c =
     (let values = [(''username'', [Username c]), (''password'', [Password c]),
                    (''grant_type'', [''password''])]
      in if Domain' c \<noteq> [] then Values_set values ''domain'' [Domain' c] else values)"

definition getAccessToken ::
  "'a env \<Rightarrow> Server \<Rightarrow> http_Request list \<Rightarrow> (error + string) \<times> http_Request list" where
  "getAccessToken env s sent =
     (if AccessToken (Credentials s) \<noteq> [] then (Inr (AccessToken (Credentials s)), sent)
      else
        let body = Encode (token_values (Credentials s));
            posted = http_Post env sent (urlFor s ''token'' [])
                       ''application/x-www-form-urlencoded'' (Bytes body)
        in case handleResponse env (fst posted) of
             Inl err \<Rightarrow> (Inl err, snd posted)
           | Inr data \<Rightarrow>
               (case json_Unmarshal (maxNestingDepth env) data of
                  Inl err \<Rightarrow> (Inl err, snd posted)
                | Inr grant \<Rightarrow> (Inr (grant_AccessToken grant), snd posted)))"

section \<open>Resource access\<close>

definition accessResource ::
  "'a env \<Rightarrow> Server \<Rightarrow> string \<Rightarrow> string \<Rightarrow> string \<Rightarrow> 'a option \<Rightarrow> http_Request list \<Rightarrow>
   (error + string) \<times> http_Request list" where
  "accessResource env s method resource path input sent =
     (if resource \<noteq> ''secrets'' \<and> resource \<noteq> ''secret-templates''
      then (Inl (Errorf ''unknown resource''), sent)
      else
        case (case input of None \<Rightarrow> Inr [] | Some v \<Rightarrow> json_Marshal env v) of
          Inl err \<Rightarrow> (Inl err, sent)
        | Inr body \<Rightarrow>
            (case http_NewRequest env method (urlFor s resource path) (Bytes body) of
               Inl err \<Rightarrow> (Inl err, sent)
             | Inr req \<Rightarrow>
                 (case getAccessToken env s sent of
                    (Inl err, sent1) \<Rightarrow> (Inl err, sent1)
                  | (Inr accessToken, sent1) \<Rightarrow>
                      let req1 = req\<lparr>Header := Header_Add (Header req) ''Authorization''
                                                  (''Bearer '' @ accessToken)\<rparr>;
                          req2 = (if method = ''POST'' \<or> method = ''PUT'' \<or> method = ''PATCH''
                                  then req1\<lparr>Header := Header_Set (Header req1) ''Content-Type''
                                                           ''application/json''\<rparr>
                                  else req1);
                          answer = client_Do env sent1 req2
                      in (handleResponse env (fst answer), snd answer))))"

section \<open>File upload\<close>

text \<open>Modelled from the spec: \<open>SecretField\<close> is declared in a file of the package that
  is not among the sources; the spec gives it a slug, a filename and an item value, the
  three fields \<open>uploadFile\<close> reads.\<close>

record SecretField =
  Slug :: string
  Filename :: string
  ItemValue :: string

text \<open>Modelled from the spec: the package constant \<open>resource\<close>, declared outside the
  sources; the spec has the upload go to \<open>secrets/{id}/fields/{slug}\<close>.\<close>

definition resource :: string where
  "resource = ''secrets''"

text \<open>The verb \<open>%d\<close> of \<^verbatim>\<open>fmt.Sprintf\<close>: an integer in decimal.\<close>

fun decimal :: "nat \<Rightarrow> string" where
  "decimal n = (if n < 10 then [char_of (48 + n)] else decimal (n div 10) @ [char_of (48 + n mod 10)])"

definition fmt_d :: "int \<Rightarrow> string" where
  "fmt_d i = (if i < 0 then ''-'' @ decimal (nat (- i)) else decimal (nat i))"

text \<open>
  \<^verbatim>\<open>regexp.Match("[^.]+\\.\\w+$", filename)\<close>: somewhere in the name there is a
  character other than a dot, then a dot, then one or more word characters up to the
  end. A word character is an ASCII letter, a digit or the underscore. Read from the
  end of the name: the longest run of word characters is not empty, a dot stands before
  it, and a character that is not a dot stands before that dot.
\<close>

definition is_word :: "char \<Rightarrow> bool" where
  "is_word c = (is_alpha c \<or> is_digit c \<or> c = CHR ''_'')"

definition regexp_Match :: "string \<Rightarrow> bool" where
  "regexp_Match filename =
     (takeWhile is_word (rev filename) \<noteq> [] \<and>
      (case dropWhile is_word (rev filename) of
         d # c # _ \<Rightarrow> d = CHR ''.'' \<and> c \<noteq> CHR ''.''
       | _ \<Rightarrow> False))"

text \<open>The filename of the uploaded part, as \<open>uploadFile\<close> derives it from the field's.\<close>

definition upload_filename :: "string \<Rightarrow> string" where
  "upload_filename filename =
     (if filename = [] then ''File.txt''
      else if \<not> regexp_Match filename then filename @ ''.txt''
      else filename)"

text \<open>The spec's description of the same test, "ends with \<open>.<word-chars>\<close>": the name
  ends with a dot and one or more word characters.\<close>

definition ends_with_dot_word :: "string \<Rightarrow> bool" where
  "ends_with_dot_word filename =
     (takeWhile is_word (rev filename) \<noteq> [] \<and>
      (case dropWhile is_word (rev filename) of d # _ \<Rightarrow> d = CHR ''.'' | [] \<Rightarrow> False))"

definition uploadFile ::
  "'a env \<Rightarrow> Server \<Rightarrow> int \<Rightarrow> SecretField \<Rightarrow> http_Request list \<Rightarrow> error option \<times> http_Request list" where
  "uploadFile env s secretId fileField sent =
     (let path = fmt_d secretId @ ''/fields/'' @ Slug fileField in
      case getAccessToken env s sent of
        (Inl err, sent1) \<Rightarrow> (Some err, sent1)
      | (Inr accessToken, sent1) \<Rightarrow>
          let multipartWriter = multipart_NewWriter (randomBoundary env);
              form = CreateFormFile multipartWriter ''file'' (upload_filename (Filename fileField));
              copied = io_Copy form (ItemValue fileField);
              closed = Close copied
          in case http_NewRequest env ''PUT'' (urlFor s resource path) (Form closed) of
               Inl err \<Rightarrow> (Some err, sent1)
             | Inr req \<Rightarrow>
                 let req1 = req\<lparr>Header := Header_Add (Header req) ''Authorization''
                                             (''Bearer '' @ accessToken)\<rparr>;
                     req2 = req1\<lparr>Header := Header_Set (Header req1) ''Content-Type''
                                              (FormDataContentType closed)\<rparr>;
                     answer = client_Do env sent1 req2
                 in (case handleResponse env (fst answer) of
                       Inl err \<Rightarrow> Some err
                     | Inr _ \<Rightarrow> None,
                     snd answer))"

section \<open>A concrete environment\<close>

text \<open>
  Inputs to run the definitions on. The configurations are the spec's: the tenant
  \<open>acme\<close> with the user \<open>u\<close> and the password \<open>p\<close>, and the server \<open>https://h/\<close>, here
  with a static token. The environment answers each request with one fixed response
  and encodes a payload that is an integer or a channel, which JSON cannot encode. It
  makes a request of a method in capital letters and a plain URL only: \<open>https://\<close>, a
  letter or digit, and then small letters, digits and \<open>. - _ /\<close>. The library parses
  such a URL and writes it out again as it was; the environment refuses every other
  URL, so that no example rests on how the library would write it.
\<close>

definition no_credential :: UserCredential where
  "no_credential = \<lparr>AccessToken = [], Domain' = [], Username = [], Password = []\<rparr>"

definition acme_config :: Configuration where
  "acme_config =
     \<lparr>Credentials = no_credential\<lparr>Username := ''u'', Password := ''p''\<rparr>,
      ServerURL = [], TLD = [], Tenant = ''acme'', apiPathURI = [], tokenPathURI = [],
      TLSClientConfig = None, LogLevel = 0\<rparr>"

definition h_config :: Configuration where
  "h_config =
     \<lparr>Credentials = no_credential\<lparr>AccessToken := ''t0k''\<rparr>,
      ServerURL = ''https://h/'', TLD = [], Tenant = [], apiPathURI = ''/api/v1'',
      tokenPathURI = [], TLSClientConfig = None, LogLevel = 0\<rparr>"

definition start_globals :: globals where
  "start_globals = \<lparr>DefaultTransport_TLSClientConfig = None, zerolog_GlobalLevel = InfoLevel\<rparr>"

datatype go_value = GoInt int | GoChan

definition marshal_go_value :: "go_value \<Rightarrow> error + string" where
  "marshal_go_value v =
     (case v of
        GoInt i \<Rightarrow> Inr (fmt_d i)
      | GoChan \<Rightarrow> Inl (LibraryError ''json: unsupported type: chan int''))"

definition plain_url :: "string \<Rightarrow> bool" where
  "plain_url url =
     (take 8 url = ''https://'' \<and>
      (case drop 8 url of
         [] \<Rightarrow> False
       | c # cs \<Rightarrow>
           (is_lower c \<or> is_digit c) \<and>
           list_all (\<lambda>x. is_lower x \<or> is_digit x \<or> x \<in> set ''.-_/'') cs))"

definition accept_request :: "string \<Rightarrow> string \<Rightarrow> error + string" where
  "accept_request method url =
     (if list_all is_upper method \<and> plain_url url then Inr url
      else Inl (LibraryError ''no plain request''))"

definition respond :: "int \<Rightarrow> string \<Rightarrow> http_Request list \<Rightarrow> http_Request \<Rightarrow> error + http_Response" where
  "respond code body sent req = Inr \<lparr>StatusCode = code, ResponseBody = body\<rparr>"

text \<open>Modelled from the spec: \<open>handleResponse\<close> is not among the sources; the spec
  treats it as returning the raw body, and an error for a status that is not 2xx.\<close>

definition spec_handleResponse :: "error + http_Response \<Rightarrow> error + string" where
  "spec_handleResponse r =
     (case r of
        Inl err \<Rightarrow> Inl err
      | Inr res \<Rightarrow>
          if 200 \<le> StatusCode res \<and> StatusCode res < 300 then Inr (ResponseBody res)
          else Inl (LibraryError (fmt_d (StatusCode res) @ '': '' @ ResponseBody res)))"

definition test_env :: "int \<Rightarrow> string \<Rightarrow> go_value env" where
  "test_env code body =
     \<lparr>json_Marshal = marshal_go_value, request_url = accept_request,
      RoundTrip = respond code body, handleResponse = spec_handleResponse,
      randomBoundary = ''4f1a'', maxNestingDepth = None\<rparr>"

definition acme_server :: Server where
  "acme_server = acme_config\<lparr>TLD := ''com'', apiPathURI := ''api/v1'', tokenPathURI := ''oauth2/token''\<rparr>"

definition h_server :: Server where
  "h_server = h_config\<lparr>TLD := ''com'', apiPathURI := ''api/v1'', tokenPathURI := ''oauth2/token''\<rparr>"

section \<open>The spec's words\<close>

text \<open>"Trimmed of leading and trailing slashes": \<open>t\<close> is \<open>x\<close> without the slashes at
  its two ends, and has none left there.\<close>

definition slash_trimmed :: "string \<Rightarrow> string \<Rightarrow> bool" where
  "slash_trimmed x t =
     ((\<exists>l r. x = l @ t @ r \<and> set l \<subseteq> {CHR ''/''} \<and> set r \<subseteq> {CHR ''/''}) \<and>
      (t = [] \<or> hd t \<noteq> CHR ''/'' \<and> last t \<noteq> CHR ''/''))"

text \<open>"Base = serverURL if set, else \<open>https://{tenant}.secretservercloud.{tld}/\<close>", with
  the TLD \<open>com\<close> and the token path \<open>/oauth2/token\<close> when the configuration leaves
  them empty.\<close>

definition spec_base :: "Configuration \<Rightarrow> string" where
  "spec_base config =
     (if ServerURL config \<noteq> [] then ServerURL config
      else ''https://'' @ Tenant config @ ''.secretservercloud.'' @
           (if TLD config = [] then ''com'' else TLD config) @ ''/'')"

definition spec_tokenPath :: "Configuration \<Rightarrow> string" where
  "spec_tokenPath config =
     (if tokenPathURI config = [] then ''/oauth2/token'' else tokenPathURI config)"

text \<open>"POST form-encoded {username, password, grant_type=password, domain?} to the
  token URL": the form has the three fields always and the domain only when the
  credential's domain is not empty; written out, the fields stand in the order of their
  names with \<open>&\<close> between them.\<close>

definition spec_form :: "UserCredential \<Rightarrow> string" where
  "spec_form c =
     (if Domain' c = [] then [] else ''domain='' @ QueryEscape (Domain' c) @ ''&'') @
     ''grant_type=password&password='' @ QueryEscape (Password c) @
     ''&username='' @ QueryEscape (Username c)"

text \<open>The POST of that form, \<open>u\<close> being the token URL as the request is sent to it.\<close>

definition spec_token_request :: "Server \<Rightarrow> string \<Rightarrow> http_Request" where
  "spec_token_request s u =
     \<lparr>Method = ''POST'', URL = u,
      Header = [(''Content-Type'', [''application/x-www-form-urlencoded''])],
      Body = Bytes (spec_form (Credentials s))\<rparr>"

text \<open>The outcome of the POST to the token endpoint, as the response handler gives it:
  an error when the request cannot be made, else what the handler makes of the
  exchange.\<close>

definition spec_token_answer :: "'a env \<Rightarrow> Server \<Rightarrow> http_Request list \<Rightarrow> error + string" where
  "spec_token_answer env s sent =
     handleResponse env
       (case request_url env ''POST'' (urlFor s ''token'' []) of
          Inl err \<Rightarrow> Inl err
        | Inr u \<Rightarrow> RoundTrip env sent (spec_token_request s u))"

text \<open>"A multipart/form-data body with a single file part named \<open>file\<close> containing the
  field's item value", complete with its closing boundary.\<close>

definition spec_upload_form :: "string \<Rightarrow> SecretField \<Rightarrow> multipart_Writer" where
  "spec_upload_form b f =
     \<lparr>w_boundary = b,
      w_parts = [\<lparr>part_name = ''file'', part_filename = upload_filename (Filename f),
                  part_content_type = ''application/octet-stream'', part_data = ItemValue f\<rparr>],
      w_closed = True\<rparr>"




section \<open>Properties of trimming\<close>

lemma trimLeft_hd: "trimLeft s cs = [] \<or> hd (trimLeft s cs) \<notin> set cs"
  unfolding trimLeft_def using hd_dropWhile[of "\<lambda>c. c \<in> set cs" s] by auto

lemma trimRight_last: "trimRight s cs = [] \<or> last (trimRight s cs) \<notin> set cs"
  unfolding trimRight_def
  using hd_dropWhile[of "\<lambda>c. c \<in> set cs" "rev s"] by (auto simp: last_rev)

lemma trimRight_keeps_hd:
  "s \<noteq> [] \<Longrightarrow> hd s \<notin> set cs \<Longrightarrow> trimRight s cs \<noteq> [] \<and> hd (trimRight s cs) = hd s"
proof (induction s rule: rev_induct)
  case Nil
  then show ?case by simp
next
  case (snoc x xs)
  show ?case
  proof (cases "x \<in> set cs")
    case True
    with snoc.prems have "xs \<noteq> []" by (cases xs) auto
    with snoc True show ?thesis by (auto simp: trimRight_def)
  next
    case False
    then show ?thesis by (simp add: trimRight_def)
  qed
qed

lemma Trim_no_leading: "strings_Trim s cs = [] \<or> hd (strings_Trim s cs) \<notin> set cs"
proof (cases "trimLeft s cs = []")
  case True
  then show ?thesis by (simp add: strings_Trim_def trimRight_def)
next
  case False
  with trimLeft_hd[of s cs] have "hd (trimLeft s cs) \<notin> set cs" by simp
  with False trimRight_keeps_hd[of "trimLeft s cs" cs] show ?thesis
    by (simp add: strings_Trim_def)
qed

lemma Trim_no_trailing: "strings_Trim s cs = [] \<or> last (strings_Trim s cs) \<notin> set cs"
  unfolding strings_Trim_def by (rule trimRight_last)

lemma Trim_decompose:
  "\<exists>l r. s = l @ strings_Trim s cs @ r \<and> set l \<subseteq> set cs \<and> set r \<subseteq> set cs"
proof -
  let ?P = "\<lambda>c. c \<in> set cs"
  let ?t = "dropWhile ?P s"
  have 1: "s = takeWhile ?P s @ ?t" by simp
  have 2: "?t = rev (dropWhile ?P (rev ?t)) @ rev (takeWhile ?P (rev ?t))"
    by (metis rev_append rev_rev_ident takeWhile_dropWhile_id)
  have 3: "set (takeWhile ?P s) \<subseteq> set cs" by (auto dest: set_takeWhileD)
  have 4: "set (rev (takeWhile ?P (rev ?t))) \<subseteq> set cs" by (auto dest: set_takeWhileD)
  show ?thesis
    unfolding strings_Trim_def trimLeft_def trimRight_def
    using 1 2 3 4 by metis
qed

lemma Trim_fixed:
  assumes "t = [] \<or> hd t \<notin> set cs \<and> last t \<notin> set cs"
  shows "strings_Trim t cs = t"
proof (cases "t = []")
  case True
  then show ?thesis by (simp add: strings_Trim_def trimLeft_def trimRight_def)
next
  case False
  with assms have h: "hd t \<notin> set cs" and l: "last t \<notin> set cs" by auto
  from False h have 1: "trimLeft t cs = t" by (simp add: trimLeft_def dropWhile_eq_self_iff)
  from False have "hd (rev t) = last t" by (simp add: hd_rev)
  with l have "dropWhile (\<lambda>c. c \<in> set cs) (rev t) = rev t"
    by (simp add: dropWhile_eq_self_iff)
  then have 2: "trimRight t cs = t" by (simp add: trimRight_def)
  from 1 2 show ?thesis by (simp add: strings_Trim_def)
qed

lemma Trim_idem: "strings_Trim (strings_Trim s cs) cs = strings_Trim s cs"
  using Trim_no_leading[of s cs] Trim_no_trailing[of s cs] by (intro Trim_fixed) auto

lemma slash_trimmed_Trim: "slash_trimmed x (strings_Trim x ''/'')"
  using Trim_decompose[of x "''/''"] Trim_no_leading[of x "''/''"] Trim_no_trailing[of x "''/''"]
  by (auto simp: slash_trimmed_def)

lemma slash_trimmed_unique:
  assumes "slash_trimmed x t"
  shows "t = strings_Trim x ''/''"
proof -
  from assms obtain l r where x: "x = l @ t @ r" and l: "set l \<subseteq> {CHR ''/''}"
    and r: "set r \<subseteq> {CHR ''/''}" and t: "t = [] \<or> hd t \<noteq> CHR ''/'' \<and> last t \<noteq> CHR ''/''"
    by (auto simp: slash_trimmed_def)
  let ?P = "\<lambda>c. c \<in> set ''/''"
  show ?thesis
  proof (cases "t = []")
    case True
    with x l r have "\<forall>c \<in> set x. ?P c" by auto
    then have dw: "dropWhile ?P x = []" by (metis dropWhile_eq_Nil_conv)
    show ?thesis unfolding strings_Trim_def trimLeft_def trimRight_def dw True by simp
  next
    case False
    with t have h: "\<not> ?P (hd t)" and la: "\<not> ?P (last t)" by auto
    from l have "\<forall>c \<in> set l. ?P c" by auto
    then have "dropWhile ?P x = dropWhile ?P (t @ r)"
      unfolding x by (simp add: dropWhile_append)
    also from False h have "\<dots> = t @ r"
      by (simp add: dropWhile_eq_self_iff)
    finally have 1: "dropWhile ?P x = t @ r" .
    from r have "\<forall>c \<in> set (rev r). ?P c" by auto
    then have "dropWhile ?P (rev (t @ r)) = dropWhile ?P (rev t)"
      by (simp add: dropWhile_append)
    also from False la have "\<dots> = rev t"
      by (simp add: dropWhile_eq_self_iff hd_rev)
    finally have 2: "dropWhile ?P (rev (t @ r)) = rev t" .
    show ?thesis unfolding strings_Trim_def trimLeft_def trimRight_def 1 2 by simp
  qed
qed

lemma double_slashes_join:
  "xs = [] \<or> last xs \<noteq> CHR ''/'' \<Longrightarrow> ys = [] \<or> hd ys \<noteq> CHR ''/'' \<Longrightarrow>
   double_slashes (xs @ CHR ''/'' # ys) = double_slashes xs + double_slashes ys"
proof (induction xs rule: double_slashes.induct)
  case (1 a b cs)
  then show ?case by auto
qed (cases ys; auto)+

lemma double_slashes_append_le1: "double_slashes ys \<le> double_slashes (xs @ ys)"
proof (induction xs)
  case Nil
  then show ?case by simp
next
  case (Cons a xs)
  then show ?case by (cases "xs @ ys") auto
qed

lemma double_slashes_append_le2: "double_slashes xs \<le> double_slashes (xs @ ys)"
proof (induction xs rule: double_slashes.induct)
  case (1 a b cs)
  then show ?case by auto
qed simp_all

lemma double_slashes_Trim: "double_slashes (strings_Trim x cs) \<le> double_slashes x"
proof -
  from Trim_decompose[of x cs] obtain l r where x: "x = l @ strings_Trim x cs @ r" by blast
  have "double_slashes (strings_Trim x cs) \<le> double_slashes (strings_Trim x cs @ r)"
    by (rule double_slashes_append_le2)
  also have "\<dots> \<le> double_slashes (l @ strings_Trim x cs @ r)"
    by (rule double_slashes_append_le1)
  finally show ?thesis using x by simp
qed

lemma New_Inr:
  assumes "New config g = (Inr s, g')"
  shows "ServerURL s = ServerURL config" "Tenant s = Tenant config"
    "TLD s = (if TLD config = [] then defaultTLD else TLD config)"
    "apiPathURI s = strings_Trim (if apiPathURI config = [] then defaultAPIPathURI else apiPathURI config) ''/''"
    "tokenPathURI s = strings_Trim (if tokenPathURI config = [] then defaultTokenPathURI else tokenPathURI config) ''/''"
    "Credentials s = Credentials config"
    "(ServerURL config = []) \<noteq> (Tenant config = [])"
  using assms by (auto simp: New_def Let_def split: if_splits)

section \<open>The concrete configurations\<close>

lemma New_acme: "fst (New acme_config start_globals) = Inr acme_server"
  by (simp add: New_def acme_config_def acme_server_def Let_def defaultTLD_def defaultAPIPathURI_def
      defaultTokenPathURI_def strings_Trim_def trimLeft_def trimRight_def)

lemma New_h: "fst (New h_config start_globals) = Inr h_server"
  by (simp add: New_def h_config_def h_server_def Let_def defaultTLD_def defaultAPIPathURI_def
      defaultTokenPathURI_def strings_Trim_def trimLeft_def trimRight_def)

section \<open>Construction\<close>

text \<open>
  C1. \<open>New\<close> fails exactly when \<open>ServerURL\<close> and \<open>Tenant\<close> are both empty or both
  non-empty, and then with the error "either ServerURL or Tenant must be set", leaving
  the process-wide settings as they were; when exactly one of the two is non-empty it
  returns a server.
\<close>

theorem New_fails_exactly:
  "(fst (New config g) = Inl (Errorf ''either ServerURL or Tenant must be set''))
     = (ServerURL config = [] \<and> Tenant config = [] \<or> ServerURL config \<noteq> [] \<and> Tenant config \<noteq> [])
   \<and> (\<exists>s. fst (New config g) = Inr s) = ((ServerURL config = []) \<noteq> (Tenant config = []))
   \<and> (\<forall>err. fst (New config g) = Inl err \<longrightarrow> New config g = (Inl (Errorf ''either ServerURL or Tenant must be set''), g))"
  by (auto simp: New_def Let_def)

text \<open>The theorem at four configurations: neither field set, both set, only the
  tenant, only the server URL.\<close>

theorem New_fails_exactly_witness:
  "fst (New (acme_config\<lparr>Tenant := []\<rparr>) start_globals) = Inl (Errorf ''either ServerURL or Tenant must be set'')
   \<and> fst (New (acme_config\<lparr>ServerURL := ''https://h/''\<rparr>) start_globals) = Inl (Errorf ''either ServerURL or Tenant must be set'')
   \<and> (\<exists>s. fst (New acme_config start_globals) = Inr s)
   \<and> (\<exists>s. fst (New h_config start_globals) = Inr s)"
proof -
  let ?none = "acme_config\<lparr>Tenant := []\<rparr>"
  let ?both = "acme_config\<lparr>ServerURL := ''https://h/''\<rparr>"
  have "ServerURL ?none = [] \<and> Tenant ?none = []" by (simp add: acme_config_def)
  with New_fails_exactly[of ?none start_globals]
  have 1: "fst (New ?none start_globals) = Inl (Errorf ''either ServerURL or Tenant must be set'')"
    by blast
  have "ServerURL ?both \<noteq> [] \<and> Tenant ?both \<noteq> []" by (simp add: acme_config_def)
  with New_fails_exactly[of ?both start_globals]
  have 2: "fst (New ?both start_globals) = Inl (Errorf ''either ServerURL or Tenant must be set'')"
    by blast
  have "(ServerURL acme_config = []) \<noteq> (Tenant acme_config = [])" by (simp add: acme_config_def)
  with New_fails_exactly[of acme_config start_globals]
  have 3: "\<exists>s. fst (New acme_config start_globals) = Inr s" by blast
  have "(ServerURL h_config = []) \<noteq> (Tenant h_config = [])" by (simp add: h_config_def)
  with New_fails_exactly[of h_config start_globals]
  have 4: "\<exists>s. fst (New h_config start_globals) = Inr s" by blast
  from 1 2 3 4 show ?thesis by blast
qed

section \<open>URLs\<close>

text \<open>
  C2. For a resource name other than \<open>token\<close>, \<open>urlFor\<close> returns four segments joined
  by single slashes: the base URL (the server URL if set, else the cloud URL of the
  tenant), the API path, the resource name and the path, each without the slashes at
  its ends. With the server URL \<open>https://h/\<close> and the API path \<open>/api/v1\<close>, the resource
  \<open>secrets\<close> and the path \<open>5/fields/x\<close> give \<open>https://h/api/v1/secrets/5/fields/x\<close>.
\<close>

theorem urlFor_resource:
  assumes "res \<noteq> ''token''"
  shows "(\<exists>b a r p.
            urlFor s res path = b @ ''/'' @ a @ ''/'' @ r @ ''/'' @ p
            \<and> slash_trimmed (if ServerURL s = [] then cloudBaseURL (Tenant s) (TLD s) else ServerURL s) b
            \<and> slash_trimmed (apiPathURI s) a
            \<and> slash_trimmed res r
            \<and> slash_trimmed path p)
         \<and> urlFor (s\<lparr>ServerURL := ''https://h/'', apiPathURI := ''/api/v1''\<rparr>) ''secrets'' ''5/fields/x''
             = ''https://h/api/v1/secrets/5/fields/x''"
proof
  let ?base = "if ServerURL s = [] then cloudBaseURL (Tenant s) (TLD s) else ServerURL s"
  have "urlFor s res path =
          strings_Trim ?base ''/'' @ ''/'' @ strings_Trim (apiPathURI s) ''/'' @ ''/'' @
          strings_Trim res ''/'' @ ''/'' @ strings_Trim path ''/''"
    using assms by (simp add: urlFor_def Let_def)
  moreover have "slash_trimmed ?base (strings_Trim ?base ''/'')"
    and "slash_trimmed (apiPathURI s) (strings_Trim (apiPathURI s) ''/'')"
    and "slash_trimmed res (strings_Trim res ''/'')"
    and "slash_trimmed path (strings_Trim path ''/'')"
    by (rule slash_trimmed_Trim)+
  ultimately show "\<exists>b a r p.
            urlFor s res path = b @ ''/'' @ a @ ''/'' @ r @ ''/'' @ p
            \<and> slash_trimmed ?base b
            \<and> slash_trimmed (apiPathURI s) a
            \<and> slash_trimmed res r
            \<and> slash_trimmed path p"
    by blast
  show "urlFor (s\<lparr>ServerURL := ''https://h/'', apiPathURI := ''/api/v1''\<rparr>) ''secrets'' ''5/fields/x''
             = ''https://h/api/v1/secrets/5/fields/x''"
    by (simp add: urlFor_def strings_Trim_def trimLeft_def trimRight_def)
qed

text \<open>The theorem at the resource \<open>secret-templates\<close> with the path \<open>/7/\<close>, and its
  second part at the configuration of the tenant \<open>acme\<close>.\<close>

theorem urlFor_resource_witness:
  "urlFor h_server ''secret-templates'' ''/7/'' = ''https://h/api/v1/secret-templates/7''
   \<and> urlFor (acme_server\<lparr>ServerURL := ''https://h/'', apiPathURI := ''/api/v1''\<rparr>) ''secrets'' ''5/fields/x''
             = ''https://h/api/v1/secrets/5/fields/x''"
proof -
  have ne: "''secret-templates'' \<noteq> ''token''" by simp
  from urlFor_resource[OF ne, of h_server "''/7/''"] obtain b a r p where
    u: "urlFor h_server ''secret-templates'' ''/7/'' = b @ ''/'' @ a @ ''/'' @ r @ ''/'' @ p"
    and b: "slash_trimmed (if ServerURL h_server = [] then cloudBaseURL (Tenant h_server) (TLD h_server) else ServerURL h_server) b"
    and a: "slash_trimmed (apiPathURI h_server) a"
    and r: "slash_trimmed ''secret-templates'' r"
    and p: "slash_trimmed ''/7/'' p"
    by blast
  have "b = ''https://h''"
    using slash_trimmed_unique[OF b]
    by (simp add: h_server_def h_config_def strings_Trim_def trimLeft_def trimRight_def)
  moreover have "a = ''api/v1''"
    using slash_trimmed_unique[OF a]
    by (simp add: h_server_def h_config_def strings_Trim_def trimLeft_def trimRight_def)
  moreover have "r = ''secret-templates''"
    using slash_trimmed_unique[OF r] by (simp add: strings_Trim_def trimLeft_def trimRight_def)
  moreover have "p = ''7''"
    using slash_trimmed_unique[OF p] by (simp add: strings_Trim_def trimLeft_def trimRight_def)
  ultimately have "urlFor h_server ''secret-templates'' ''/7/'' = ''https://h/api/v1/secret-templates/7''"
    using u by simp
  moreover have "urlFor (acme_server\<lparr>ServerURL := ''https://h/'', apiPathURI := ''/api/v1''\<rparr>) ''secrets'' ''5/fields/x''
             = ''https://h/api/v1/secrets/5/fields/x''"
    using urlFor_resource[OF ne, of acme_server] by simp
  ultimately show ?thesis by simp
qed

text \<open>
  C3. For a server that \<open>New\<close> returned, \<open>urlFor\<close> of \<open>token\<close> is the base and the token
  path, each without the slashes at its ends, joined by one slash. The base is the
  server URL if set and else \<open>https://{tenant}.secretservercloud.{tld}/\<close>, the TLD
  being \<open>com\<close> when empty. The join adds no double slash: the URL has as many double
  slashes as the trimmed base and the trimmed token path have inside them (the one of
  \<open>https://\<close>, say), which are no more than those of the configuration's values.
\<close>

theorem urlFor_token:
  assumes "New config g = (Inr s, g')"
  shows "\<exists>b t.
           urlFor s ''token'' [] = b @ ''/'' @ t
           \<and> slash_trimmed (spec_base config) b
           \<and> slash_trimmed (spec_tokenPath config) t
           \<and> double_slashes (urlFor s ''token'' []) = double_slashes b + double_slashes t
           \<and> double_slashes b \<le> double_slashes (spec_base config)
           \<and> double_slashes t \<le> double_slashes (spec_tokenPath config)"
proof -
  let ?b = "strings_Trim (spec_base config) ''/''"
  let ?t = "strings_Trim (spec_tokenPath config) ''/''"
  from New_Inr[OF assms] have
    base: "(if ServerURL s = [] then cloudBaseURL (Tenant s) (TLD s) else ServerURL s) = spec_base config"
    and tp: "tokenPathURI s = ?t"
    by (auto simp: spec_base_def spec_tokenPath_def cloudBaseURL_def defaultTLD_def defaultTokenPathURI_def)
  have u: "urlFor s ''token'' [] = ?b @ ''/'' @ ?t"
    using base tp by (simp add: urlFor_def Let_def Trim_idem)
  have "?b = [] \<or> last ?b \<noteq> CHR ''/''" using Trim_no_trailing[of "spec_base config" "''/''"] by simp
  moreover have "?t = [] \<or> hd ?t \<noteq> CHR ''/''" using Trim_no_leading[of "spec_tokenPath config" "''/''"] by simp
  ultimately have d: "double_slashes (?b @ ''/'' @ ?t) = double_slashes ?b + double_slashes ?t"
    using double_slashes_join[of ?b ?t] by simp
  show ?thesis
    using u d slash_trimmed_Trim double_slashes_Trim by metis
qed

text \<open>The theorem at the configuration of the tenant \<open>acme\<close>, whose only double
  slash is the one after the scheme.\<close>

theorem urlFor_token_witness:
  "urlFor acme_server ''token'' [] = ''https://acme.secretservercloud.com/oauth2/token''
   \<and> double_slashes (urlFor acme_server ''token'' []) \<le> 1"
proof -
  have n: "New acme_config start_globals = (Inr acme_server, snd (New acme_config start_globals))"
    using New_acme by (metis prod.collapse)
  from urlFor_token[OF n] obtain b t where
    u: "urlFor acme_server ''token'' [] = b @ ''/'' @ t"
    and b: "slash_trimmed (spec_base acme_config) b"
    and t: "slash_trimmed (spec_tokenPath acme_config) t"
    and d: "double_slashes (urlFor acme_server ''token'' []) = double_slashes b + double_slashes t"
    by blast
  have b': "b = ''https://acme.secretservercloud.com''"
    using slash_trimmed_unique[OF b]
    by (simp add: spec_base_def acme_config_def strings_Trim_def trimLeft_def trimRight_def)
  have t': "t = ''oauth2/token''"
    using slash_trimmed_unique[OF t]
    by (simp add: spec_tokenPath_def acme_config_def strings_Trim_def trimLeft_def trimRight_def)
  from u d b' t' show ?thesis by simp
qed

section \<open>Token acquisition\<close>

lemma QueryEscape_keys:
  "QueryEscape ''username'' = ''username''"
  "QueryEscape ''password'' = ''password''"
  "QueryEscape ''grant_type'' = ''grant_type''"
  "QueryEscape ''domain'' = ''domain''"
  by (simp_all add: QueryEscape_def shouldEscape_def is_alpha_def is_lower_def is_upper_def is_digit_def)

lemma Encode_token_values: "Encode (token_values c) = spec_form c"
  by (simp add: Encode_def token_values_def Values_set_def Values_get_def write_pair_def
      spec_form_def Let_def QueryEscape_keys)

lemma getAccessToken_post:
  assumes "AccessToken (Credentials s) = []"
  shows "getAccessToken env s sent =
           (case spec_token_answer env s sent of
              Inl err \<Rightarrow> Inl err
            | Inr data \<Rightarrow>
                (case json_Unmarshal (maxNestingDepth env) data of
                   Inl err \<Rightarrow> Inl err
                 | Inr g \<Rightarrow> Inr (grant_AccessToken g)),
            case request_url env ''POST'' (urlFor s ''token'' []) of
              Inl err \<Rightarrow> sent
            | Inr u \<Rightarrow> sent @ [spec_token_request s u])"
  using assms
  by (simp add: getAccessToken_def Let_def http_Post_def http_NewRequest_def client_Do_def
      Encode_token_values spec_token_answer_def spec_token_request_def Header_Set_def
      split: sum.split)

text \<open>With the response handler as the spec describes it, the POST to the token endpoint
  fails when the request cannot be made, when the transport fails, and when the status
  of the response is not 2xx.\<close>

lemma spec_token_answer_fails:
  assumes "handleResponse env = spec_handleResponse"
  shows "(\<exists>err. spec_token_answer env s sent = Inl err) =
           ((\<exists>err. request_url env ''POST'' (urlFor s ''token'' []) = Inl err)
            \<or> (\<exists>u err. request_url env ''POST'' (urlFor s ''token'' []) = Inr u
                  \<and> RoundTrip env sent (spec_token_request s u) = Inl err)
            \<or> (\<exists>u res. request_url env ''POST'' (urlFor s ''token'' []) = Inr u
                  \<and> RoundTrip env sent (spec_token_request s u) = Inr res
                  \<and> \<not> (200 \<le> StatusCode res \<and> StatusCode res < 300)))"
  using assms
  by (auto simp: spec_token_answer_def spec_handleResponse_def split: sum.splits)

text \<open>
  C5. With a static access token in the credential, \<open>getAccessToken\<close> returns that
  token as it is and sends nothing: the list of requests sent is the one it was given,
  whatever the username, the password and the domain of the credential are and whatever
  the environment would answer.
\<close>

theorem getAccessToken_static:
  assumes "AccessToken (Credentials s) \<noteq> []"
  shows "getAccessToken env s sent = (Inr (AccessToken (Credentials s)), sent)"
  using assms by (simp add: getAccessToken_def)

text \<open>The theorem at a credential that holds a token and a username, a password and a
  domain as well, in an environment whose transport would answer 500.\<close>

theorem getAccessToken_static_witness:
  "getAccessToken (test_env 500 []) (h_server\<lparr>Credentials := \<lparr>AccessToken = ''t0k'', Domain' = ''d'', Username = ''u'', Password = ''p''\<rparr>\<rparr>) []
     = (Inr ''t0k'', [])"
  using getAccessToken_static[of "h_server\<lparr>Credentials := \<lparr>AccessToken = ''t0k'', Domain' = ''d'', Username = ''u'', Password = ''p''\<rparr>\<rparr>" "test_env 500 []" "[]"]
  by simp

text \<open>
  C6. Without a static token, \<open>getAccessToken\<close> builds the form with the fields
  \<open>username\<close>, \<open>password\<close> and \<open>grant_type=password\<close>, and \<open>domain\<close> exactly when the
  credential's domain is not empty, and posts it to the token URL. It fails exactly
  when the POST fails (the request cannot be made, or the response handler reports an
  error) or the body the handler returns is refused by \<open>json.Unmarshal\<close>; the error it
  returns is that of the POST or of the decoding, and a token it returns is the
  \<open>access_token\<close> of the decoded grant. It sends the one POST, or nothing when the
  request cannot be made.
\<close>

theorem getAccessToken_password_grant:
  assumes "AccessToken (Credentials s) = []"
  shows "Values_get (token_values (Credentials s)) ''username'' = [Username (Credentials s)]
         \<and> Values_get (token_values (Credentials s)) ''password'' = [Password (Credentials s)]
         \<and> Values_get (token_values (Credentials s)) ''grant_type'' = [''password'']
         \<and> Values_get (token_values (Credentials s)) ''domain'' =
             (if Domain' (Credentials s) = [] then [] else [Domain' (Credentials s)])
         \<and> Encode (token_values (Credentials s)) = spec_form (Credentials s)
         \<and> ((\<exists>err. fst (getAccessToken env s sent) = Inl err) =
            ((\<exists>err. spec_token_answer env s sent = Inl err) \<or>
             (\<exists>data err. spec_token_answer env s sent = Inr data \<and>
                json_Unmarshal (maxNestingDepth env) data = Inl err)))
         \<and> (\<forall>err. fst (getAccessToken env s sent) = Inl err \<longrightarrow>
               spec_token_answer env s sent = Inl err \<or>
               (\<exists>data. spec_token_answer env s sent = Inr data \<and>
                  json_Unmarshal (maxNestingDepth env) data = Inl err))
         \<and> (\<forall>tok. fst (getAccessToken env s sent) = Inr tok \<longrightarrow>
               (\<exists>data g. spec_token_answer env s sent = Inr data \<and>
                  json_Unmarshal (maxNestingDepth env) data = Inr g \<and> tok = grant_AccessToken g))
         \<and> ((\<exists>err. request_url env ''POST'' (urlFor s ''token'' []) = Inl err \<and>
                snd (getAccessToken env s sent) = sent)
            \<or> (\<exists>u. request_url env ''POST'' (urlFor s ''token'' []) = Inr u \<and>
                snd (getAccessToken env s sent) = sent @ [spec_token_request s u]))"
proof -
  have "Values_get (token_values (Credentials s)) ''username'' = [Username (Credentials s)]"
    and "Values_get (token_values (Credentials s)) ''password'' = [Password (Credentials s)]"
    and "Values_get (token_values (Credentials s)) ''grant_type'' = [''password'']"
    and "Values_get (token_values (Credentials s)) ''domain'' =
             (if Domain' (Credentials s) = [] then [] else [Domain' (Credentials s)])"
    by (simp_all add: token_values_def Values_get_def Values_set_def Let_def)
  then show ?thesis
    unfolding getAccessToken_post[OF assms] Encode_token_values
    by (auto split: sum.splits)
qed

text \<open>The theorem for the user \<open>u\<close> of the tenant \<open>acme\<close>: a grant is accepted, a
  response with the status 401 and a body that is no JSON are errors.\<close>

theorem getAccessToken_password_grant_witness:
  \<open>fst (getAccessToken (test_env 200 ''{"access_token":"abc","expires_in":1200}'') acme_server []) = Inr ''abc''
   \<and> (\<exists>err. fst (getAccessToken (test_env 401 ''denied'') acme_server []) = Inl err)
   \<and> (\<exists>err. fst (getAccessToken (test_env 200 ''<html>'') acme_server []) = Inl err)
   \<and> snd (getAccessToken (test_env 401 ''denied'') acme_server []) =
        [\<lparr>Method = ''POST'', URL = ''https://acme.secretservercloud.com/oauth2/token'',
          Header = [(''Content-Type'', [''application/x-www-form-urlencoded''])],
          Body = Bytes ''grant_type=password&password=p&username=u''\<rparr>]
   \<and> spec_form \<lparr>AccessToken = [], Domain' = ''corp'', Username = ''a b'', Password = ''p&q''\<rparr>
        = ''domain=corp&grant_type=password&password=p%26q&username=a+b''\<close>
proof -
  have st: "AccessToken (Credentials acme_server) = []" by code_simp
  have ok: \<open>spec_token_answer (test_env 200 ''{"access_token":"abc","expires_in":1200}'') acme_server []
              = Inr ''{"access_token":"abc","expires_in":1200}''\<close> by code_simp
  have dec: \<open>json_Unmarshal (maxNestingDepth (test_env 200 ''{"access_token":"abc","expires_in":1200}''))
               ''{"access_token":"abc","expires_in":1200}''
             = Inr \<lparr>grant_AccessToken = ''abc'', grant_RefreshToken = [], grant_TokenType = [],
                    grant_ExpiresIn = 1200\<rparr>\<close> by code_simp
  have denied: "spec_token_answer (test_env 401 ''denied'') acme_server [] = Inl (LibraryError ''401: denied'')"
    by code_simp
  have html: "spec_token_answer (test_env 200 ''<html>'') acme_server [] = Inr ''<html>''" by code_simp
  have bad: "json_Unmarshal (maxNestingDepth (test_env 200 ''<html>'')) ''<html>'' = Inl SyntaxError"
    by code_simp
  have chk: "request_url (test_env 401 ''denied'') ''POST'' (urlFor acme_server ''token'' [])
               = Inr ''https://acme.secretservercloud.com/oauth2/token''"
    by code_simp
  have req: "spec_token_request acme_server ''https://acme.secretservercloud.com/oauth2/token'' =
        \<lparr>Method = ''POST'', URL = ''https://acme.secretservercloud.com/oauth2/token'',
          Header = [(''Content-Type'', [''application/x-www-form-urlencoded''])],
          Body = Bytes ''grant_type=password&password=p&username=u''\<rparr>" by code_simp
  note w1 = getAccessToken_password_grant[OF st, of "test_env 200 ''{\"access_token\":\"abc\",\"expires_in\":1200}''" "[]"]
  note w2 = getAccessToken_password_grant[OF st, of "test_env 401 ''denied''" "[]"]
  note w3 = getAccessToken_password_grant[OF st, of "test_env 200 ''<html>''" "[]"]
  have 1: \<open>fst (getAccessToken (test_env 200 ''{"access_token":"abc","expires_in":1200}'') acme_server []) = Inr ''abc''\<close>
  proof (cases \<open>fst (getAccessToken (test_env 200 ''{"access_token":"abc","expires_in":1200}'') acme_server [])\<close>)
    case (Inl err)
    with w1 ok dec show ?thesis by auto
  next
    case (Inr tok)
    with w1 ok dec show ?thesis by auto
  qed
  have 2: "\<exists>err. fst (getAccessToken (test_env 401 ''denied'') acme_server []) = Inl err"
    using w2 denied by blast
  have 3: "\<exists>err. fst (getAccessToken (test_env 200 ''<html>'') acme_server []) = Inl err"
    using w3 html bad by blast
  have 4: "snd (getAccessToken (test_env 401 ''denied'') acme_server [])
             = [spec_token_request acme_server ''https://acme.secretservercloud.com/oauth2/token'']"
    using w2 chk by auto
  have 5: "spec_form \<lparr>AccessToken = [], Domain' = ''corp'', Username = ''a b'', Password = ''p&q''\<rparr>
        = ''domain=corp&grant_type=password&password=p%26q&username=a+b''" by code_simp
  from 1 2 3 4 5 req show ?thesis by simp
qed

section \<open>Resource access\<close>

text \<open>
  C4. For a resource name other than \<open>secrets\<close> and \<open>secret-templates\<close>,
  \<open>accessResource\<close> fails with the error "unknown resource" and sends nothing, neither
  to the token endpoint nor elsewhere: the list of requests sent is unchanged.
\<close>

theorem accessResource_unknown_resource:
  assumes "res \<noteq> ''secrets''" and "res \<noteq> ''secret-templates''"
  shows "accessResource env s method res path input sent = (Inl (Errorf ''unknown resource''), sent)"
  using assms by (simp add: accessResource_def)

text \<open>The theorem at the spec's resource name \<open>unknown-thing\<close>.\<close>

theorem accessResource_unknown_resource_witness:
  "accessResource (test_env 200 ''{}'') acme_server ''GET'' ''unknown-thing'' ''1'' None []
     = (Inl (Errorf ''unknown resource''), [])"
  by (rule accessResource_unknown_resource) simp_all

text \<open>
  C10. For a known resource and a payload that \<open>json.Marshal\<close> refuses,
  \<open>accessResource\<close> returns the error of the encoding and sends nothing: no token is
  acquired and neither endpoint is contacted.
\<close>

theorem accessResource_marshal_error:
  assumes "res = ''secrets'' \<or> res = ''secret-templates''" and "json_Marshal env v = Inl err"
  shows "accessResource env s method res path (Some v) sent = (Inl err, sent)"
  using assms by (auto simp: accessResource_def)

text \<open>The theorem at a channel, which JSON cannot encode, for a server that would
  need a token from the token endpoint.\<close>

theorem accessResource_marshal_error_witness:
  "accessResource (test_env 200 ''{}'') acme_server ''POST'' ''secrets'' ''1'' (Some GoChan) []
     = (Inl (LibraryError ''json: unsupported type: chan int''), [])"
  by (rule accessResource_marshal_error) (simp_all add: test_env_def marshal_go_value_def)


section \<open>File names\<close>

lemma dot_not_word: "\<not> is_word (CHR ''.'')"
  by (simp add: is_word_def is_alpha_def is_lower_def is_upper_def is_digit_def)

lemma span_word_dot:
  assumes "list_all is_word ws"
  shows "takeWhile is_word (rev ws @ CHR ''.'' # ys) = rev ws"
    and "dropWhile is_word (rev ws @ CHR ''.'' # ys) = CHR ''.'' # ys"
proof -
  have w: "\<And>x. x \<in> set (rev ws) \<Longrightarrow> is_word x" using assms by (simp add: list_all_iff)
  show "takeWhile is_word (rev ws @ CHR ''.'' # ys) = rev ws"
    using takeWhile_append2[of "rev ws" is_word "CHR ''.'' # ys", OF w]
    by (simp add: dot_not_word)
  show "dropWhile is_word (rev ws @ CHR ''.'' # ys) = CHR ''.'' # ys"
    using dropWhile_append2[of "rev ws" is_word "CHR ''.'' # ys", OF w]
    by (simp add: dot_not_word)
qed

lemma regexp_Match_iff:
  "regexp_Match f =
     (\<exists>pre x ws. f = pre @ [x] @ ''.'' @ ws \<and> x \<noteq> CHR ''.'' \<and> ws \<noteq> [] \<and> list_all is_word ws)"
proof
  assume m: "regexp_Match f"
  let ?ws = "takeWhile is_word (rev f)"
  from m obtain c rest where ne: "?ws \<noteq> []"
    and d: "dropWhile is_word (rev f) = CHR ''.'' # c # rest" and c: "c \<noteq> CHR ''.''"
    by (auto simp: regexp_Match_def split: list.splits)
  have "rev f = ?ws @ CHR ''.'' # c # rest"
    using takeWhile_dropWhile_id[of is_word "rev f"] d by simp
  then have "rev (rev f) = rev (?ws @ CHR ''.'' # c # rest)" by simp
  then have "f = rev rest @ [c] @ ''.'' @ rev ?ws" by simp
  moreover have "list_all is_word (rev ?ws)"
    by (auto simp: list_all_iff dest: set_takeWhileD)
  ultimately show "\<exists>pre x ws. f = pre @ [x] @ ''.'' @ ws \<and> x \<noteq> CHR ''.'' \<and> ws \<noteq> [] \<and> list_all is_word ws"
    using c ne by (metis rev_is_Nil_conv)
next
  assume "\<exists>pre x ws. f = pre @ [x] @ ''.'' @ ws \<and> x \<noteq> CHR ''.'' \<and> ws \<noteq> [] \<and> list_all is_word ws"
  then obtain pre x ws where f: "f = pre @ [x] @ ''.'' @ ws" and x: "x \<noteq> CHR ''.''"
    and ne: "ws \<noteq> []" and w: "list_all is_word ws" by blast
  have r: "rev f = rev ws @ CHR ''.'' # x # rev pre" using f by simp
  have t: "takeWhile is_word (rev f) = rev ws"
    unfolding r by (rule span_word_dot[OF w])
  have d: "dropWhile is_word (rev f) = CHR ''.'' # x # rev pre"
    unfolding r by (rule span_word_dot[OF w])
  show "regexp_Match f" using t d ne x by (simp add: regexp_Match_def)
qed

lemma ends_with_dot_word_iff:
  "ends_with_dot_word f = (\<exists>pre ws. f = pre @ ''.'' @ ws \<and> ws \<noteq> [] \<and> list_all is_word ws)"
proof
  assume m: "ends_with_dot_word f"
  let ?ws = "takeWhile is_word (rev f)"
  from m obtain rest where ne: "?ws \<noteq> []"
    and d: "dropWhile is_word (rev f) = CHR ''.'' # rest"
    by (auto simp: ends_with_dot_word_def split: list.splits)
  have "rev f = ?ws @ CHR ''.'' # rest"
    using takeWhile_dropWhile_id[of is_word "rev f"] d by simp
  then have "rev (rev f) = rev (?ws @ CHR ''.'' # rest)" by simp
  then have "f = rev rest @ ''.'' @ rev ?ws" by simp
  moreover have "list_all is_word (rev ?ws)"
    by (auto simp: list_all_iff dest: set_takeWhileD)
  ultimately show "\<exists>pre ws. f = pre @ ''.'' @ ws \<and> ws \<noteq> [] \<and> list_all is_word ws"
    using ne by (metis rev_is_Nil_conv)
next
  assume "\<exists>pre ws. f = pre @ ''.'' @ ws \<and> ws \<noteq> [] \<and> list_all is_word ws"
  then obtain pre ws where f: "f = pre @ ''.'' @ ws"
    and ne: "ws \<noteq> []" and w: "list_all is_word ws" by blast
  have r: "rev f = rev ws @ CHR ''.'' # rev pre" using f by simp
  have t: "takeWhile is_word (rev f) = rev ws"
    unfolding r by (rule span_word_dot[OF w])
  have d: "dropWhile is_word (rev f) = CHR ''.'' # rev pre"
    unfolding r by (rule span_word_dot[OF w])
  show "ends_with_dot_word f" using t d ne by (simp add: ends_with_dot_word_def)
qed

lemma regexp_Match_ends:
  assumes "regexp_Match f"
  shows "ends_with_dot_word f"
proof -
  from assms obtain pre x ws where "f = (pre @ [x]) @ ''.'' @ ws" and "ws \<noteq> []"
    and "list_all is_word ws"
    unfolding regexp_Match_iff by auto
  then show ?thesis unfolding ends_with_dot_word_iff by blast
qed

text \<open>
  C7, amended. In \<open>uploadFile\<close> the empty filename becomes \<open>File.txt\<close>. A filename is
  left as it is exactly when it matches the expression of the source: it ends with a
  character other than a dot, then a dot, then one or more word characters; \<open>foo.bin\<close>
  does. Every other filename that is not empty has \<open>.txt\<close> appended: \<open>foo\<close> becomes
  \<open>foo.txt\<close>, and so does every name that does not end with a dot and word characters.
\<close>

theorem upload_filename_rule:
  "upload_filename [] = ''File.txt''
   \<and> (f \<noteq> [] \<and> \<not> regexp_Match f \<longrightarrow> upload_filename f = f @ ''.txt'')
   \<and> (regexp_Match f \<longrightarrow> upload_filename f = f)
   \<and> regexp_Match f =
       (\<exists>pre x ws. f = pre @ [x] @ ''.'' @ ws \<and> x \<noteq> CHR ''.'' \<and> ws \<noteq> [] \<and> list_all is_word ws)
   \<and> (\<not> ends_with_dot_word f \<longrightarrow> \<not> regexp_Match f)
   \<and> upload_filename ''foo'' = ''foo.txt''
   \<and> upload_filename ''foo.bin'' = ''foo.bin''"
proof -
  have 1: "upload_filename [] = ''File.txt''" by (simp add: upload_filename_def)
  have 2: "f \<noteq> [] \<and> \<not> regexp_Match f \<longrightarrow> upload_filename f = f @ ''.txt''"
    by (simp add: upload_filename_def)
  have 3: "regexp_Match f \<longrightarrow> upload_filename f = f"
    by (auto simp: upload_filename_def regexp_Match_def)
  have 4: "\<not> ends_with_dot_word f \<longrightarrow> \<not> regexp_Match f" using regexp_Match_ends by blast
  have 5: "upload_filename ''foo'' = ''foo.txt''" by code_simp
  have 6: "upload_filename ''foo.bin'' = ''foo.bin''" by code_simp
  from 1 2 3 4 5 6 regexp_Match_iff[of f] show ?thesis by blast
qed

text \<open>The theorem at a name without a dot, a name with an extension and a name that
  begins with its only dot.\<close>

theorem upload_filename_rule_witness:
  "upload_filename ''report'' = ''report.txt'' \<and> upload_filename ''report.pdf'' = ''report.pdf''
   \<and> upload_filename ''.gitignore'' = ''.gitignore.txt''"
proof -
  have a: "''report'' \<noteq> [] \<and> \<not> regexp_Match ''report''" by code_simp
  have b: "regexp_Match ''report.pdf''" by code_simp
  have c: "''.gitignore'' \<noteq> [] \<and> \<not> regexp_Match ''.gitignore''" by code_simp
  from a upload_filename_rule[of "''report''"] have 1: "upload_filename ''report'' = ''report.txt''"
    by simp
  from b upload_filename_rule[of "''report.pdf''"] have 2: "upload_filename ''report.pdf'' = ''report.pdf''"
    by simp
  from c upload_filename_rule[of "''.gitignore''"] have 3: "upload_filename ''.gitignore'' = ''.gitignore.txt''"
    by simp
  from 1 2 3 show ?thesis by simp
qed

text \<open>
  C7 as the spec words it ("ends with \<open>.<word-chars>\<close>", "a filename already carrying
  an extension is left unchanged") fails where no other character stands before the
  last dot: \<open>a..bin\<close> and \<open>.bin\<close> end with a dot and word characters and still have
  \<open>.txt\<close> appended.
\<close>

theorem upload_filename_double_dot:
  "ends_with_dot_word ''a..bin'' \<and> upload_filename ''a..bin'' = ''a..bin.txt''
   \<and> ends_with_dot_word ''.bin'' \<and> upload_filename ''.bin'' = ''.bin.txt''"
  by code_simp

section \<open>File upload\<close>

lemma digit_not_slash: "(n::nat) < 10 \<Longrightarrow> char_of (48 + n) \<noteq> CHR ''/''"
proof
  assume n: "n < 10" and e: "char_of (48 + n) = CHR ''/''"
  from e have "(of_char (char_of (48 + n) :: char) :: nat) = of_char (CHR ''/'')" by simp
  with n show False by simp
qed

lemma decimal_hd: "decimal n \<noteq> [] \<and> hd (decimal n) \<noteq> CHR ''/''"
proof (induction n rule: decimal.induct)
  case (1 n)
  show ?case
  proof (cases "n < 10")
    case True
    then show ?thesis using digit_not_slash[of n] by (subst decimal.simps, subst decimal.simps) simp
  next
    case False
    with 1 have "decimal (n div 10) \<noteq> [] \<and> hd (decimal (n div 10)) \<noteq> CHR ''/''" by simp
    with False show ?thesis by (subst decimal.simps, subst decimal.simps) simp
  qed
qed

lemma fmt_d_hd: "fmt_d i \<noteq> [] \<and> hd (fmt_d i) \<noteq> CHR ''/''"
  using decimal_hd by (simp add: fmt_d_def)

lemma upload_path_trimmed:
  assumes "slug \<noteq> []" and "last slug \<noteq> CHR ''/''"
  shows "strings_Trim (fmt_d i @ ''/fields/'' @ slug) ''/'' = fmt_d i @ ''/fields/'' @ slug"
proof (rule Trim_fixed)
  have "hd (fmt_d i @ ''/fields/'' @ slug) = hd (fmt_d i)" using fmt_d_hd[of i] by simp
  moreover have "last (fmt_d i @ ''/fields/'' @ slug) = last slug" using assms by simp
  ultimately show "fmt_d i @ ''/fields/'' @ slug = [] \<or>
    hd (fmt_d i @ ''/fields/'' @ slug) \<notin> set ''/'' \<and> last (fmt_d i @ ''/fields/'' @ slug) \<notin> set ''/''"
    using fmt_d_hd[of i] assms by simp
qed

lemma upload_form: 
  "Close (io_Copy (CreateFormFile (multipart_NewWriter b) ''file'' (upload_filename (Filename f))) (ItemValue f))
     = spec_upload_form b f"
  by (simp add: Close_def io_Copy_def CreateFormFile_def multipart_NewWriter_def spec_upload_form_def)

lemma FormDataContentType_prefix: "take 19 (FormDataContentType w) = ''multipart/form-data''"
  by (simp add: FormDataContentType_def)

lemma upload_path_empty_slug:
  "strings_Trim (fmt_d i @ ''/fields/'' @ []) ''/'' = fmt_d i @ ''/fields''"
proof -
  have "slash_trimmed (fmt_d i @ ''/fields/'' @ []) (fmt_d i @ ''/fields'')"
    unfolding slash_trimmed_def
  proof
    have "fmt_d i @ ''/fields/'' @ [] = [] @ (fmt_d i @ ''/fields'') @ ''/''
          \<and> set [] \<subseteq> {CHR ''/''} \<and> set ''/'' \<subseteq> {CHR ''/''}" by simp
    then show "\<exists>l r. fmt_d i @ ''/fields/'' @ [] = l @ (fmt_d i @ ''/fields'') @ r
          \<and> set l \<subseteq> {CHR ''/''} \<and> set r \<subseteq> {CHR ''/''}" by blast
    show "fmt_d i @ ''/fields'' = [] \<or>
          hd (fmt_d i @ ''/fields'') \<noteq> CHR ''/'' \<and> last (fmt_d i @ ''/fields'') \<noteq> CHR ''/''"
      using fmt_d_hd[of i] by simp
  qed
  from slash_trimmed_unique[OF this] show ?thesis by simp
qed

lemma uploadFile_sends:
  assumes "getAccessToken env s sent = (Inr tok, sent1)"
    and "request_url env ''PUT'' (urlFor s ''secrets'' (fmt_d secretId @ ''/fields/'' @ Slug f)) = Inr u"
  shows "uploadFile env s secretId f sent =
          (case handleResponse env (RoundTrip env sent1
                  \<lparr>Method = ''PUT'', URL = u,
                   Header = [(''Authorization'', [''Bearer '' @ tok]),
                             (''Content-Type'', [FormDataContentType (spec_upload_form (randomBoundary env) f)])],
                   Body = Form (spec_upload_form (randomBoundary env) f)\<rparr>) of
             Inl err \<Rightarrow> Some err
           | Inr data \<Rightarrow> None,
           sent1 @ [\<lparr>Method = ''PUT'', URL = u,
                   Header = [(''Authorization'', [''Bearer '' @ tok]),
                             (''Content-Type'', [FormDataContentType (spec_upload_form (randomBoundary env) f)])],
                   Body = Form (spec_upload_form (randomBoundary env) f)\<rparr>])"
  using assms
  by (simp add: uploadFile_def Let_def resource_def http_NewRequest_def client_Do_def upload_form
      Header_Add_def Header_Set_def)

lemma uploadFile_no_token:
  assumes "getAccessToken env s sent = (Inl err, sent1)"
  shows "uploadFile env s secretId f sent = (Some err, sent1)"
  using assms by (simp add: uploadFile_def Let_def)

lemma uploadFile_no_request:
  assumes "getAccessToken env s sent = (Inr tok, sent1)"
    and "request_url env ''PUT'' (urlFor s ''secrets'' (fmt_d secretId @ ''/fields/'' @ Slug f)) = Inl err"
  shows "uploadFile env s secretId f sent = (Some err, sent1)"
  using assms by (simp add: uploadFile_def Let_def resource_def http_NewRequest_def)

lemma upload_url:
  "\<exists>b a p. urlFor s ''secrets'' (fmt_d secretId @ ''/fields/'' @ slug) = b @ ''/'' @ a @ ''/secrets/'' @ p
     \<and> slash_trimmed (if ServerURL s = [] then cloudBaseURL (Tenant s) (TLD s) else ServerURL s) b
     \<and> slash_trimmed (apiPathURI s) a
     \<and> slash_trimmed (fmt_d secretId @ ''/fields/'' @ slug) p
     \<and> (slug \<noteq> [] \<and> last slug \<noteq> CHR ''/'' \<longrightarrow> p = fmt_d secretId @ ''/fields/'' @ slug)
     \<and> (slug = [] \<longrightarrow> p = fmt_d secretId @ ''/fields'')"
proof -
  let ?base = "if ServerURL s = [] then cloudBaseURL (Tenant s) (TLD s) else ServerURL s"
  let ?path = "fmt_d secretId @ ''/fields/'' @ slug"
  have 1: "urlFor s ''secrets'' ?path =
             strings_Trim ?base ''/'' @ ''/'' @ strings_Trim (apiPathURI s) ''/'' @ ''/secrets/'' @
             strings_Trim ?path ''/''"
    by (simp add: urlFor_def Let_def strings_Trim_def trimLeft_def trimRight_def)
  have 2: "slash_trimmed ?base (strings_Trim ?base ''/'')"
    and 3: "slash_trimmed (apiPathURI s) (strings_Trim (apiPathURI s) ''/'')"
    and 4: "slash_trimmed ?path (strings_Trim ?path ''/'')"
    by (rule slash_trimmed_Trim)+
  have 5: "slug \<noteq> [] \<and> last slug \<noteq> CHR ''/'' \<longrightarrow> strings_Trim ?path ''/'' = ?path"
    using upload_path_trimmed[of slug secretId] by blast
  have 6: "slug = [] \<longrightarrow> strings_Trim ?path ''/'' = fmt_d secretId @ ''/fields''"
    using upload_path_empty_slug[of secretId] by auto
  from 1 2 3 4 5 6 show ?thesis by blast
qed

text \<open>
  C8, amended. \<open>uploadFile\<close> first acquires the token and then has the library make the
  request for the URL of the resource \<open>secrets\<close> and the path \<open>{id}/fields/{slug}\<close>; when
  either fails it returns that error and sends no PUT. Otherwise it sends one further
  request: a PUT to that URL as the library writes it, with the multipart form of the
  one part named \<open>file\<close> that holds the field's item value as its body, the form's own
  \<open>Content-Type\<close> (\<open>multipart/form-data\<close> with the boundary) and no other, and the
  \<open>Authorization\<close> of \<open>Bearer\<close> and the token; the result is the error of the response
  handler, if any. The URL given to the library is \<open>{base}/{apiPath}/secrets/\<close> and the
  path without the slashes at its ends: \<open>{id}/fields/{slug}\<close> for a slug that is not
  empty and does not end with a slash, \<open>{id}/fields\<close> for the empty slug.
\<close>

theorem uploadFile_request:
  "(getAccessToken env s sent = (Inl err, sent1) \<longrightarrow>
      uploadFile env s secretId f sent = (Some err, sent1))
   \<and> (getAccessToken env s sent = (Inr tok, sent1)
        \<and> request_url env ''PUT'' (urlFor s ''secrets'' (fmt_d secretId @ ''/fields/'' @ Slug f)) = Inl err
      \<longrightarrow> uploadFile env s secretId f sent = (Some err, sent1))
   \<and> (getAccessToken env s sent = (Inr tok, sent1)
        \<and> request_url env ''PUT'' (urlFor s ''secrets'' (fmt_d secretId @ ''/fields/'' @ Slug f)) = Inr u
      \<longrightarrow> (\<exists>req.
            snd (uploadFile env s secretId f sent) = sent1 @ [req]
          \<and> fst (uploadFile env s secretId f sent) =
              (case handleResponse env (RoundTrip env sent1 req) of
                 Inl err \<Rightarrow> Some err
               | Inr data \<Rightarrow> None)
          \<and> Method req = ''PUT''
          \<and> URL req = u
          \<and> Body req = Form (spec_upload_form (randomBoundary env) f)
          \<and> Header req = [(''Authorization'', [''Bearer '' @ tok]),
                           (''Content-Type'', [FormDataContentType (spec_upload_form (randomBoundary env) f)])]))
   \<and> (\<exists>b a p.
          urlFor s ''secrets'' (fmt_d secretId @ ''/fields/'' @ Slug f) = b @ ''/'' @ a @ ''/secrets/'' @ p
        \<and> slash_trimmed (if ServerURL s = [] then cloudBaseURL (Tenant s) (TLD s) else ServerURL s) b
        \<and> slash_trimmed (apiPathURI s) a
        \<and> slash_trimmed (fmt_d secretId @ ''/fields/'' @ Slug f) p
        \<and> (Slug f \<noteq> [] \<and> last (Slug f) \<noteq> CHR ''/'' \<longrightarrow> p = fmt_d secretId @ ''/fields/'' @ Slug f)
        \<and> (Slug f = [] \<longrightarrow> p = fmt_d secretId @ ''/fields''))
   \<and> take 19 (FormDataContentType (spec_upload_form (randomBoundary env) f)) = ''multipart/form-data''"
proof (intro conjI impI)
  assume "getAccessToken env s sent = (Inl err, sent1)"
  then show "uploadFile env s secretId f sent = (Some err, sent1)" by (rule uploadFile_no_token)
next
  assume "getAccessToken env s sent = (Inr tok, sent1)
        \<and> request_url env ''PUT'' (urlFor s ''secrets'' (fmt_d secretId @ ''/fields/'' @ Slug f)) = Inl err"
  then show "uploadFile env s secretId f sent = (Some err, sent1)"
    using uploadFile_no_request by blast
next
  assume a: "getAccessToken env s sent = (Inr tok, sent1)
        \<and> request_url env ''PUT'' (urlFor s ''secrets'' (fmt_d secretId @ ''/fields/'' @ Slug f)) = Inr u"
  let ?req = "\<lparr>Method = ''PUT'', URL = u,
                Header = [(''Authorization'', [''Bearer '' @ tok]),
                          (''Content-Type'', [FormDataContentType (spec_upload_form (randomBoundary env) f)])],
                Body = Form (spec_upload_form (randomBoundary env) f)\<rparr>"
  from a uploadFile_sends[of env s sent tok sent1 secretId f u]
  have "uploadFile env s secretId f sent =
          (case handleResponse env (RoundTrip env sent1 ?req) of Inl err \<Rightarrow> Some err | Inr data \<Rightarrow> None,
           sent1 @ [?req])"
    by blast
  then show "\<exists>req.
            snd (uploadFile env s secretId f sent) = sent1 @ [req]
          \<and> fst (uploadFile env s secretId f sent) =
              (case handleResponse env (RoundTrip env sent1 req) of
                 Inl err \<Rightarrow> Some err
               | Inr data \<Rightarrow> None)
          \<and> Method req = ''PUT''
          \<and> URL req = u
          \<and> Body req = Form (spec_upload_form (randomBoundary env) f)
          \<and> Header req = [(''Authorization'', [''Bearer '' @ tok]),
                           (''Content-Type'', [FormDataContentType (spec_upload_form (randomBoundary env) f)])]"
    by (intro exI[of _ ?req]) simp
next
  show "\<exists>b a p.
          urlFor s ''secrets'' (fmt_d secretId @ ''/fields/'' @ Slug f) = b @ ''/'' @ a @ ''/secrets/'' @ p
        \<and> slash_trimmed (if ServerURL s = [] then cloudBaseURL (Tenant s) (TLD s) else ServerURL s) b
        \<and> slash_trimmed (apiPathURI s) a
        \<and> slash_trimmed (fmt_d secretId @ ''/fields/'' @ Slug f) p
        \<and> (Slug f \<noteq> [] \<and> last (Slug f) \<noteq> CHR ''/'' \<longrightarrow> p = fmt_d secretId @ ''/fields/'' @ Slug f)
        \<and> (Slug f = [] \<longrightarrow> p = fmt_d secretId @ ''/fields'')"
    by (rule upload_url)
next
  show "take 19 (FormDataContentType (spec_upload_form (randomBoundary env) f)) = ''multipart/form-data''"
    by (rule FormDataContentType_prefix)
qed

text \<open>The theorem for the secret 5 and the field \<open>x\<close> on the server \<open>https://h/\<close>, and
  for the tenant \<open>acme\<close> when the token endpoint answers 401.\<close>

theorem uploadFile_request_witness:
  "(\<exists>req. snd (uploadFile (test_env 200 []) h_server 5 \<lparr>Slug = ''x'', Filename = ''foo'', ItemValue = ''data''\<rparr> []) = [req]
     \<and> Method req = ''PUT''
     \<and> URL req = ''https://h/api/v1/secrets/5/fields/x''
     \<and> Body req = Form \<lparr>w_boundary = ''4f1a'',
                         w_parts = [\<lparr>part_name = ''file'', part_filename = ''foo.txt'',
                                     part_content_type = ''application/octet-stream'',
                                     part_data = ''data''\<rparr>],
                         w_closed = True\<rparr>
     \<and> Header req = [(''Authorization'', [''Bearer t0k'']),
                      (''Content-Type'', [''multipart/form-data; boundary=4f1a''])])
   \<and> fst (uploadFile (test_env 401 ''denied'') acme_server 5 \<lparr>Slug = ''x'', Filename = ''foo'', ItemValue = ''data''\<rparr> [])
       = Some (LibraryError ''401: denied'')"
proof -
  let ?f = "\<lparr>Slug = ''x'', Filename = ''foo'', ItemValue = ''data''\<rparr>"
  have tok: "getAccessToken (test_env 200 []) h_server [] = (Inr ''t0k'', [])" by code_simp
  have chk: "request_url (test_env 200 []) ''PUT''
               (urlFor h_server ''secrets'' (fmt_d 5 @ ''/fields/'' @ Slug ?f))
             = Inr ''https://h/api/v1/secrets/5/fields/x''"
    by code_simp
  note w = uploadFile_request[where env = "test_env 200 []" and s = h_server and sent = "[]"
      and tok = "''t0k''" and ?sent1.0 = "[]" and secretId = 5 and f = ?f
      and u = "''https://h/api/v1/secrets/5/fields/x''"]
  from w tok chk obtain req where
    1: "snd (uploadFile (test_env 200 []) h_server 5 ?f []) = [] @ [req]"
    and 2: "Method req = ''PUT''"
    and 3: "URL req = ''https://h/api/v1/secrets/5/fields/x''"
    and 4: "Body req = Form (spec_upload_form (randomBoundary (test_env 200 [])) ?f)"
    and 5: "Header req = [(''Authorization'', [''Bearer '' @ ''t0k'']),
                     (''Content-Type'', [FormDataContentType (spec_upload_form (randomBoundary (test_env 200 [])) ?f)])]"
    by blast
  have b: "spec_upload_form (randomBoundary (test_env 200 [])) ?f =
             \<lparr>w_boundary = ''4f1a'',
              w_parts = [\<lparr>part_name = ''file'', part_filename = ''foo.txt'',
                          part_content_type = ''application/octet-stream'',
                          part_data = ''data''\<rparr>],
              w_closed = True\<rparr>" by code_simp
  have c: "FormDataContentType (spec_upload_form (randomBoundary (test_env 200 [])) ?f)
             = ''multipart/form-data; boundary=4f1a''" by code_simp
  from 1 2 3 4 5 c have first:
    "\<exists>req. snd (uploadFile (test_env 200 []) h_server 5 ?f []) = [req]
     \<and> Method req = ''PUT''
     \<and> URL req = ''https://h/api/v1/secrets/5/fields/x''
     \<and> Body req = Form \<lparr>w_boundary = ''4f1a'',
                         w_parts = [\<lparr>part_name = ''file'', part_filename = ''foo.txt'',
                                     part_content_type = ''application/octet-stream'',
                                     part_data = ''data''\<rparr>],
                         w_closed = True\<rparr>
     \<and> Header req = [(''Authorization'', [''Bearer t0k'']),
                      (''Content-Type'', [''multipart/form-data; boundary=4f1a''])]"
    unfolding b by simp
  have denied: "getAccessToken (test_env 401 ''denied'') acme_server []
      = (Inl (LibraryError ''401: denied''),
         [spec_token_request acme_server ''https://acme.secretservercloud.com/oauth2/token''])"
    by code_simp
  from uploadFile_request[where env = "test_env 401 ''denied''" and s = acme_server and sent = "[]"
      and err = "LibraryError ''401: denied''"
      and ?sent1.0 = "[spec_token_request acme_server ''https://acme.secretservercloud.com/oauth2/token'']"
      and secretId = 5 and f = ?f] denied
  have second: "fst (uploadFile (test_env 401 ''denied'') acme_server 5 ?f [])
       = Some (LibraryError ''401: denied'')"
    by simp
  from first second show ?thesis by blast
qed

text \<open>
  C8 as stated, for every secret id and every field, fails in two ways. For the empty
  slug the PUT goes to \<open>.../secrets/-5/fields\<close>, which is not
  \<open>{base}/{apiPath}/secrets/{id}/fields/{slug}\<close> with its slash after \<open>fields\<close>. And
  when the token endpoint answers 401, \<open>uploadFile\<close> returns that error after the one
  request to the token endpoint and sends no PUT.
\<close>

theorem uploadFile_empty_slug:
  "map URL (snd (uploadFile (test_env 200 []) h_server (- 5)
                   \<lparr>Slug = [], Filename = ''foo'', ItemValue = ''data''\<rparr> []))
     = [''https://h/api/v1/secrets/-5/fields'']
   \<and> ''https://h/api/v1/secrets/-5/fields''
       \<noteq> ''https://h'' @ ''/'' @ ''api/v1'' @ ''/secrets/'' @ fmt_d (- 5) @ ''/fields/''
           @ Slug \<lparr>Slug = [], Filename = ''foo'', ItemValue = ''data''\<rparr>
   \<and> uploadFile (test_env 401 ''denied'') acme_server 5
        \<lparr>Slug = ''x'', Filename = ''foo'', ItemValue = ''data''\<rparr> []
     = (Some (LibraryError ''401: denied''),
        [spec_token_request acme_server ''https://acme.secretservercloud.com/oauth2/token''])"
  by code_simp

section \<open>Grants without a token\<close>




















end
